theory Spec2Isabelle
  imports Complex_Main "HOL-Library.AList"
begin

section \<open>Values, configuration and the outside world\<close>

text \<open>
  The monitoring program of \<^verbatim>\<open>main.py\<close>, its escalation handlers of
  \<^verbatim>\<open>handlers.py\<close> and the reader of \<^verbatim>\<open>api.py\<close>, as HOL functions.
  Python strings are byte lists in UTF-8 (the Ukrainian message texts are written out byte by
  byte); a Python float is modelled by the \<^typ>\<open>real\<close> number it stands for, so \<open>>=\<close>
  is the mathematical comparison and a NaN is not represented. The rounded division and
  multiplication of floats are operations of the outside world; the difference of two readings
  of the clock is taken without rounding.
\<close>

text \<open>The exceptions that the modelled code can raise or receive from a library call.\<close>

datatype exn =
    KeyError string
  | TypeError
  | NameError string
  | AttributeError
  | ZeroDivisionError
  | FileNotFoundError
  | JSONDecodeError
  | LibraryError string

text \<open>
  The module \<^verbatim>\<open>config\<close> is not part of the sources; what the code reads from it is a
  parameter. A check and a server are dictionaries there. The keys \<^verbatim>\<open>name\<close> and
  \<^verbatim>\<open>type\<close> are always present; a key that only some check types need is optional,
  and subscripting it when absent raises \<^verbatim>\<open>KeyError\<close>.
\<close>

record check_config =
  c_name :: string             \<comment> \<open>key \<^verbatim>\<open>name\<close>\<close>
  c_type :: string             \<comment> \<open>key \<^verbatim>\<open>type\<close>\<close>
  c_port :: "int option"       \<comment> \<open>key \<^verbatim>\<open>port\<close>\<close>
  c_service :: "string option" \<comment> \<open>key \<^verbatim>\<open>service\<close>\<close>

record server_config =
  s_name :: string               \<comment> \<open>key \<^verbatim>\<open>name\<close>\<close>
  s_host :: "string option"      \<comment> \<open>key \<^verbatim>\<open>host\<close>\<close>
  s_user :: "string option"      \<comment> \<open>key \<^verbatim>\<open>user\<close>\<close>
  s_password :: "string option"  \<comment> \<open>key \<^verbatim>\<open>password\<close>\<close>
  s_checks :: "check_config list"       \<comment> \<open>key \<^verbatim>\<open>checks\<close>\<close>

record config =
  servers :: "server_config list"
  resourse_limits :: "(string \<times> real) list"
  response_time_limit :: real
  chats :: "string list"

text \<open>What \<^verbatim>\<open>json.load\<close> returns, and what is passed as third argument of
  \<^verbatim>\<open>get_strategy\<close>.\<close>

datatype pyval =
    PyNone
  | PyBool bool
  | PyNum real
  | PyStr string
  | PyList "pyval list"
  | PyDict "(string \<times> pyval) list"

text \<open>One entry of the aggregate, the dictionary appended by \<^verbatim>\<open>log_result\<close>.\<close>

record entry =
  e_check_name :: string             \<comment> \<open>key \<^verbatim>\<open>check_name\<close>\<close>
  e_result :: string                 \<comment> \<open>key \<^verbatim>\<open>result\<close>\<close>
  e_response_time :: "real option"   \<comment> \<open>key \<^verbatim>\<open>response_time\<close>\<close>

text \<open>
  \<^verbatim>\<open>self.aggregate_results\<close> maps a server name to its list of entries and, once a
  flush has run, the key \<^verbatim>\<open>last-check-time\<close> to a string. The dictionary is an
  association list in insertion order.
\<close>

datatype aggval = Entries "entry list" | Stamp string

type_synonym aggregate = "(string \<times> aggval) list"

text \<open>An open SSH session is named by the host it was opened to.\<close>

type_synonym conn = string

text \<open>
  The outside world: every answer of a library call that the code makes. A call at clock time
  \<open>t\<close> may answer differently from the same call at another time. The network probes also
  say how long the call took. The rounding and printing of floats, \<^verbatim>\<open>strftime\<close> and
  the JSON encoder and decoder are library functions, taken as given.
\<close>

record env =
  run_ping :: "real \<Rightarrow> string option \<Rightarrow> real \<times> (exn + int \<times> string)"
    \<comment> \<open>\<^verbatim>\<open>subprocess.run(['ping', '-c', '1', host])\<close>: the return code and the decoded output\<close>
  telnet_open :: "real \<Rightarrow> string option \<Rightarrow> int \<Rightarrow> real \<times> exn option"
    \<comment> \<open>\<^verbatim>\<open>telnetlib.Telnet(host, port, timeout=10)\<close>: how long the attempt took and the
        exception it raised, if any\<close>
  ssh_is_active :: "real \<Rightarrow> string option \<Rightarrow> int \<Rightarrow> string \<Rightarrow> string \<Rightarrow> string \<Rightarrow> real \<times> (exn + string)"
    \<comment> \<open>connect, run \<^verbatim>\<open>systemctl is-active\<close>, read, decode and strip the output\<close>
  getloadavg :: "real \<Rightarrow> exn + real"
  cpu_count :: "nat option"
  float_div :: "real \<Rightarrow> real \<Rightarrow> real"
    \<comment> \<open>\<^verbatim>\<open>x / y\<close> on floats, rounded to a float\<close>
  float_mul :: "real \<Rightarrow> real \<Rightarrow> real"
    \<comment> \<open>\<^verbatim>\<open>x * y\<close> on floats, rounded to a float\<close>
  virtual_memory :: "real \<Rightarrow> exn + real"
  disk_usage :: "real \<Rightarrow> string \<Rightarrow> exn + real"
  pyfloat :: "string \<Rightarrow> exn + real"
  round3 :: "real \<Rightarrow> real"
  fmt_float :: "real \<Rightarrow> string"
  strftime :: "real \<Rightarrow> string"
  open_log :: "string \<Rightarrow> exn option"
    \<comment> \<open>\<^verbatim>\<open>logging.FileHandler(path)\<close> opens the log file\<close>
  json_dumps :: "aggregate \<Rightarrow> string"
  json_decode :: "string \<Rightarrow> exn + pyval"
  ssh_connect :: "real \<Rightarrow> string \<Rightarrow> string \<Rightarrow> string \<Rightarrow> exn + conn"
  exec_command :: "real \<Rightarrow> conn \<Rightarrow> string \<Rightarrow> exn + string \<times> string"
    \<comment> \<open>run a command and read both streams: (stdout, stderr)\<close>
  getpeername :: "conn \<Rightarrow> exn + string"
  requests_post :: "real \<Rightarrow> string \<Rightarrow> string \<Rightarrow> exn option"
    \<comment> \<open>\<^verbatim>\<open>requests.post(url, json={'chat_id': id, 'message': m})\<close>\<close>

text \<open>
  What the program does to the world and to itself. \<open>Enter_handle_failure\<close>,
  \<open>Enter_handle_warning\<close> and \<open>Enter_handle\<close> mark that the method was called; the
  others are effects. A line of the root logger is kept as the text of its format string and
  the exception it prints.
\<close>

datatype strategy = NotifyFailureStrategy | NotifyWarningStrategy | MoveServicesStrategy

datatype event =
    LogError string "exn option"
  | LogInfo string
  | ServerLog string string
  | Post string string
  | SshExec conn string
  | SshClose conn
  | Enter_handle_failure string string string
  | Enter_handle_warning string string real
  | Enter_handle strategy string string
  | ThreadStart string string
  | ThreadJoin string string
  | Flush
  | Sleep real

record st =
  aggregate_results :: aggregate
  threads :: "(server_config \<times> check_config) list"
  loggers :: "string list"          \<comment> \<open>the names of the loggers that have a handler\<close>
  snapshot_file :: "string option"  \<comment> \<open>the content of \<^verbatim>\<open>./aggregate_results.json\<close>\<close>
  now :: real                       \<comment> \<open>the wall clock\<close>
  trace :: "event list"

definition emit :: "event \<Rightarrow> st \<Rightarrow> st" where
  "emit ev s = s\<lparr>trace := trace s @ [ev]\<rparr>"

definition tick :: "real \<Rightarrow> st \<Rightarrow> st" where
  "tick d s = s\<lparr>now := now s + d\<rparr>"

section \<open>Strings\<close>

definition startswith :: "string \<Rightarrow> string \<Rightarrow> bool" where
  "startswith pat s = (take (length pat) s = pat)"

text \<open>\<^verbatim>\<open>s.find(pat)\<close>: the first index where \<open>pat\<close> occurs, \<open>None\<close> for -1.\<close>

primrec find_sub :: "string \<Rightarrow> string \<Rightarrow> nat option" where
  "find_sub pat [] = (if pat = [] then Some 0 else None)"
| "find_sub pat (c # cs) =
     (if startswith pat (c # cs) then Some 0 else map_option Suc (find_sub pat cs))"

text \<open>\<^verbatim>\<open>s.find(pat, i)\<close>.\<close>

definition find_from :: "string \<Rightarrow> string \<Rightarrow> nat \<Rightarrow> nat option" where
  "find_from pat s i =
     (if i \<le> length s then map_option (\<lambda>k. k + i) (find_sub pat (drop i s)) else None)"

text \<open>\<^verbatim>\<open>pat in s\<close> for strings: \<open>pat\<close> occurs in \<open>s\<close>.\<close>

definition str_in :: "string \<Rightarrow> string \<Rightarrow> bool" where
  "str_in pat s = (find_sub pat s \<noteq> None)"

section \<open>The monitors (main.py)\<close>

datatype monitor =
    ServerPingMonitor "string option"
  | TelnetMonitor "string option" int
  | ServiceMonitor "string option" int string string string
  | CPUMonitor
  | RAMMonitor
  | DiskMonitor string

definition ServerPingMonitor_check :: "env \<Rightarrow> string option \<Rightarrow> st \<Rightarrow> (exn + bool) \<times> st" where
  "ServerPingMonitor_check w host s =
     (case run_ping w (now s) host of
        (d, Inl e) \<Rightarrow> (Inl e, tick d s)
      | (d, Inr (returncode, output)) \<Rightarrow> (Inr (returncode = 0), tick d s))"

definition ServerPingMonitor_response_time ::
  "env \<Rightarrow> string option \<Rightarrow> st \<Rightarrow> (exn + real) \<times> st" where
  "ServerPingMonitor_response_time w host s =
     (case run_ping w (now s) host of
        (d, Inl e) \<Rightarrow> (Inl e, tick d s)
      | (d, Inr (returncode, output)) \<Rightarrow>
          (case find_sub ''time='' output of
             Some time_pos \<Rightarrow>
               (let start = time_pos + 5 in
                (case find_from '' '' output start of
                   Some end_pos \<Rightarrow> (pyfloat w (take (end_pos - start) (drop start output)), tick d s)
                 | None \<Rightarrow>
                     (pyfloat w (take (length output - 1 - start) (drop start output)),
                      tick d s)))
           | None \<Rightarrow> (Inr (- 1), tick d s)))"

definition TelnetMonitor_check :: "env \<Rightarrow> string option \<Rightarrow> int \<Rightarrow> st \<Rightarrow> (exn + bool) \<times> st" where
  "TelnetMonitor_check w host port s =
     (case telnet_open w (now s) host port of
        (d, None) \<Rightarrow> (Inr True, tick d s)
      | (d, Some e) \<Rightarrow>
          (Inr False,
           emit (LogError ''Error connecting to {self.host}:{self.port}: {e}'' (Some e))
             (tick d s)))"

text \<open>
  \<^verbatim>\<open>start_time\<close> and \<^verbatim>\<open>end_time\<close> are two readings of the clock, one before the
  connection attempt and one after it, on the path that connects and on the path that catches
  the exception alike.
\<close>

definition TelnetMonitor_response_time ::
  "env \<Rightarrow> string option \<Rightarrow> int \<Rightarrow> st \<Rightarrow> (exn + real) \<times> st" where
  "TelnetMonitor_response_time w host port s =
     (let start_time = now s in
      (case telnet_open w (now s) host port of
         (d, None) \<Rightarrow>
           (let s1 = tick d s; end_time = now s1 in (Inr (end_time - start_time), s1))
       | (d, Some e) \<Rightarrow>
           (let s1 = tick d s; end_time = now s1 in
            (Inr (end_time - start_time),
             emit (LogError ''Failed to connect to {self.host}:{self.port}: {e}'' (Some e)) s1))))"

text \<open>The text of the error line of \<^verbatim>\<open>ServiceMonitor.check\<close>, Russian for "Error while
  connecting to the server or running the command on it", in UTF-8.\<close>

definition service_error_text :: string where
  "service_error_text =
     [CHR 0xD0, CHR 0x9E, CHR 0xD1, CHR 0x88, CHR 0xD0, CHR 0xB8, CHR 0xD0, CHR 0xB1,
     CHR 0xD0, CHR 0xBA, CHR 0xD0, CHR 0xB0] @ '' '' @ [CHR 0xD0, CHR 0xBF, CHR 0xD1,
     CHR 0x80, CHR 0xD0, CHR 0xB8] @ '' '' @ [CHR 0xD0, CHR 0xBF, CHR 0xD0, CHR 0xBE,
     CHR 0xD0, CHR 0xB4, CHR 0xD0, CHR 0xBA, CHR 0xD0, CHR 0xBB, CHR 0xD1, CHR 0x8E,
     CHR 0xD1, CHR 0x87, CHR 0xD0, CHR 0xB5, CHR 0xD0, CHR 0xBD, CHR 0xD0, CHR 0xB8,
     CHR 0xD0, CHR 0xB8] @ '' '' @ [CHR 0xD0, CHR 0xB8, CHR 0xD0, CHR 0xBB, CHR 0xD0,
     CHR 0xB8] @ '' '' @ [CHR 0xD0, CHR 0xB2, CHR 0xD1, CHR 0x8B, CHR 0xD0, CHR 0xBF,
     CHR 0xD0, CHR 0xBE, CHR 0xD0, CHR 0xBB, CHR 0xD0, CHR 0xBD, CHR 0xD0, CHR 0xB5,
     CHR 0xD0, CHR 0xBD, CHR 0xD0, CHR 0xB8, CHR 0xD0, CHR 0xB8] @ '' '' @ [CHR 0xD0,
     CHR 0xBA, CHR 0xD0, CHR 0xBE, CHR 0xD0, CHR 0xBC, CHR 0xD0, CHR 0xB0, CHR 0xD0,
     CHR 0xBD, CHR 0xD0, CHR 0xB4, CHR 0xD1, CHR 0x8B] @ '' '' @ [CHR 0xD0, CHR 0xBD,
     CHR 0xD0, CHR 0xB0] @ '' '' @ [CHR 0xD1, CHR 0x81, CHR 0xD0, CHR 0xB5, CHR 0xD1,
     CHR 0x80, CHR 0xD0, CHR 0xB2, CHR 0xD0, CHR 0xB5, CHR 0xD1, CHR 0x80, CHR 0xD0,
     CHR 0xB5] @ '': {e}''"

definition ServiceMonitor_check ::
  "env \<Rightarrow> string option \<Rightarrow> int \<Rightarrow> string \<Rightarrow> string \<Rightarrow> string \<Rightarrow> st \<Rightarrow> (exn + bool) \<times> st" where
  "ServiceMonitor_check w hostname port username password service_name s =
     (case ssh_is_active w (now s) hostname port username password service_name of
        (d, Inr output) \<Rightarrow> (Inr (output = ''active''), tick d s)
      | (d, Inl e) \<Rightarrow> (Inr False, emit (LogError service_error_text (Some e)) (tick d s)))"

definition ServiceMonitor_response_time :: "st \<Rightarrow> (exn + real) \<times> st" where
  "ServiceMonitor_response_time s = (Inr 0, s)"

definition CPUMonitor_response_time :: "env \<Rightarrow> st \<Rightarrow> (exn + real) \<times> st" where
  "CPUMonitor_response_time w s =
     (case getloadavg w (now s) of
        Inl e \<Rightarrow> (Inl e, s)
      | Inr load1 \<Rightarrow>
          (case cpu_count w of
             None \<Rightarrow> (Inl TypeError, s)
           | Some n \<Rightarrow>
               if n = 0 then (Inl ZeroDivisionError, s)
               else (Inr (float_mul w (float_div w load1 (real n)) 100), s)))"

definition RAMMonitor_response_time :: "env \<Rightarrow> st \<Rightarrow> (exn + real) \<times> st" where
  "RAMMonitor_response_time w s = (virtual_memory w (now s), s)"

definition DiskMonitor_response_time :: "env \<Rightarrow> string \<Rightarrow> st \<Rightarrow> (exn + real) \<times> st" where
  "DiskMonitor_response_time w disk s = (disk_usage w (now s) disk, s)"

text \<open>The method call \<^verbatim>\<open>monitor.check()\<close>, by the class of the monitor.\<close>

fun check :: "env \<Rightarrow> monitor \<Rightarrow> st \<Rightarrow> (exn + bool) \<times> st" where
  "check w (ServerPingMonitor host) s = ServerPingMonitor_check w host s"
| "check w (TelnetMonitor host port) s = TelnetMonitor_check w host port s"
| "check w (ServiceMonitor h p u pw sv) s = ServiceMonitor_check w h p u pw sv s"
| "check w CPUMonitor s = (Inr True, s)"
| "check w RAMMonitor s = (Inr True, s)"
| "check w (DiskMonitor disk) s = (Inr True, s)"

text \<open>The method call \<^verbatim>\<open>monitor.response_time()\<close>.\<close>

fun response_time :: "env \<Rightarrow> monitor \<Rightarrow> st \<Rightarrow> (exn + real) \<times> st" where
  "response_time w (ServerPingMonitor host) s = ServerPingMonitor_response_time w host s"
| "response_time w (TelnetMonitor host port) s = TelnetMonitor_response_time w host port s"
| "response_time w (ServiceMonitor h p u pw sv) s = ServiceMonitor_response_time s"
| "response_time w CPUMonitor s = CPUMonitor_response_time w s"
| "response_time w RAMMonitor s = RAMMonitor_response_time w s"
| "response_time w (DiskMonitor disk) s = DiskMonitor_response_time w disk s"

section \<open>Escalation strategies (handlers.py)\<close>

text \<open>The message texts, in UTF-8. \<open>alarm_header\<close> is three exclamation-mark emoji, the
  Ukrainian word for ALARM and two newlines; \<open>not_responding\<close> is " NOT RESPONDING";
  \<open>warning_header\<close> is a warning sign, the word for ATTENTION and two newlines.\<close>

definition alarm_header :: string where
  "alarm_header = [CHR 0xE2, CHR 0x9D, CHR 0x97, CHR 0xE2, CHR 0x9D, CHR 0x97, CHR 0xE2, CHR 0x9D,
     CHR 0x97, CHR 0xD0, CHR 0xA2, CHR 0xD0, CHR 0xA0, CHR 0xD0, CHR 0x98, CHR 0xD0, CHR 0x92,
     CHR 0xD0, CHR 0x9E, CHR 0xD0, CHR 0x93, CHR 0xD0, CHR 0x90, CHR 0x0A, CHR 0x0A]"

definition not_responding :: string where
  "not_responding = '' '' @ [CHR 0xD0, CHR 0x9D, CHR 0xD0, CHR 0x95] @ '' '' @
     [CHR 0xD0, CHR 0x92, CHR 0xD0, CHR 0x86, CHR 0xD0, CHR 0x94, CHR 0xD0, CHR 0x9F, CHR 0xD0,
      CHR 0x9E, CHR 0xD0, CHR 0x92, CHR 0xD0, CHR 0x86, CHR 0xD0, CHR 0x94, CHR 0xD0, CHR 0x90,
      CHR 0xD0, CHR 0x84]"

definition warning_header :: string where
  "warning_header = [CHR 0xE2, CHR 0x9A, CHR 0xA0, CHR 0xEF, CHR 0xB8, CHR 0x8F, CHR 0xD0, CHR 0xA3,
     CHR 0xD0, CHR 0x92, CHR 0xD0, CHR 0x90, CHR 0xD0, CHR 0x93, CHR 0xD0, CHR 0x90, CHR 0x0A,
     CHR 0x0A]"

text \<open>"Services stopped on TG1", "Failed to connect to TG1", "Services started on TG2" and
  "Failed to connect to TG2", each with its newline.\<close>

definition tg1_disabled :: string where
  "tg1_disabled = [CHR 0xD0, CHR 0xA1, CHR 0xD0, CHR 0xBB, CHR 0xD1, CHR 0x83, CHR 0xD0, CHR 0xB6,
     CHR 0xD0, CHR 0xB1, CHR 0xD0, CHR 0xB8] @ '' '' @ [CHR 0xD0, CHR 0xB2, CHR 0xD1, CHR 0x96,
     CHR 0xD0, CHR 0xB4, CHR 0xD0, CHR 0xBA, CHR 0xD0, CHR 0xBB, CHR 0xD1, CHR 0x8E, CHR 0xD1,
     CHR 0x87, CHR 0xD0, CHR 0xB5, CHR 0xD0, CHR 0xBD, CHR 0xD1, CHR 0x96] @ '' '' @
     [CHR 0xD0, CHR 0xBD, CHR 0xD0, CHR 0xB0] @ '' TG1'' @ [CHR 0x0A]"

definition tg1_failed :: string where
  "tg1_failed = [CHR 0xD0, CHR 0x9D, CHR 0xD0, CHR 0xB5] @ '' '' @ [CHR 0xD0, CHR 0xB2, CHR 0xD0,
     CHR 0xB4, CHR 0xD0, CHR 0xB0, CHR 0xD0, CHR 0xBB, CHR 0xD0, CHR 0xBE, CHR 0xD1, CHR 0x81,
     CHR 0xD1, CHR 0x8F] @ '' '' @ [CHR 0xD0, CHR 0xBF, CHR 0xD1, CHR 0x96, CHR 0xD0, CHR 0xB4,
     CHR 0x27, CHR 0xD1, CHR 0x94, CHR 0xD0, CHR 0xB4, CHR 0xD0, CHR 0xBD, CHR 0xD0, CHR 0xB0,
     CHR 0xD1, CHR 0x82, CHR 0xD0, CHR 0xB8, CHR 0xD1, CHR 0x81, CHR 0xD1, CHR 0x8F] @ '' '' @
     [CHR 0xD0, CHR 0xB4, CHR 0xD0, CHR 0xBE] @ '' TG1'' @ [CHR 0x0A]"

definition tg2_enabled :: string where
  "tg2_enabled = [CHR 0xD0, CHR 0xA1, CHR 0xD0, CHR 0xBB, CHR 0xD1, CHR 0x83, CHR 0xD0, CHR 0xB6,
     CHR 0xD0, CHR 0xB1, CHR 0xD0, CHR 0xB8] @ '' '' @ [CHR 0xD0, CHR 0xB2, CHR 0xD0, CHR 0xBA,
     CHR 0xD0, CHR 0xBB, CHR 0xD1, CHR 0x8E, CHR 0xD1, CHR 0x87, CHR 0xD0, CHR 0xB5, CHR 0xD0,
     CHR 0xBD, CHR 0xD1, CHR 0x96] @ '' '' @ [CHR 0xD0, CHR 0xBD, CHR 0xD0, CHR 0xB0] @
     '' TG2'' @ [CHR 0x0A]"

definition tg2_failed :: string where
  "tg2_failed = [CHR 0xD0, CHR 0x9D, CHR 0xD0, CHR 0xB5] @ '' '' @ [CHR 0xD0, CHR 0xB2, CHR 0xD0,
     CHR 0xB4, CHR 0xD0, CHR 0xB0, CHR 0xD0, CHR 0xBB, CHR 0xD0, CHR 0xBE, CHR 0xD1, CHR 0x81,
     CHR 0xD1, CHR 0x8F] @ '' '' @ [CHR 0xD0, CHR 0xBF, CHR 0xD1, CHR 0x96, CHR 0xD0, CHR 0xB4,
     CHR 0x27, CHR 0xD1, CHR 0x94, CHR 0xD0, CHR 0xB4, CHR 0xD0, CHR 0xBD, CHR 0xD0, CHR 0xB0,
     CHR 0xD1, CHR 0x82, CHR 0xD0, CHR 0xB8, CHR 0xD1, CHR 0x81, CHR 0xD1, CHR 0x8F] @ '' '' @
     [CHR 0xD0, CHR 0xB4, CHR 0xD0, CHR 0xBE] @ '' TG2'' @ [CHR 0x0A]"

definition get_strategy :: "string \<Rightarrow> string \<Rightarrow> pyval \<Rightarrow> strategy" where
  "get_strategy server_name check_type other_checks =
     (if other_checks = PyStr ''warning'' then NotifyWarningStrategy
      else if server_name = ''TG1'' then MoveServicesStrategy
      else NotifyFailureStrategy)"

text \<open>
  The loop \<^verbatim>\<open>for id in chats: requests.post(url, json=data)\<close> of all three handlers.
  No handler catches what \<^verbatim>\<open>requests.post\<close> raises: the exception ends the loop and
  leaves the handler, after the posts already made.
\<close>

fun post_all :: "env \<Rightarrow> string \<Rightarrow> string list \<Rightarrow> st \<Rightarrow> exn option \<times> st" where
  "post_all w message [] s = (None, s)"
| "post_all w message (chat_id # ids) s =
     (case requests_post w (now s) chat_id message of
        Some e \<Rightarrow> (Some e, s)
      | None \<Rightarrow> post_all w message ids (emit (Post chat_id message) s))"

definition NotifyFailureStrategy_handle ::
  "env \<Rightarrow> config \<Rightarrow> string \<Rightarrow> string \<Rightarrow> st \<Rightarrow> exn option \<times> st" where
  "NotifyFailureStrategy_handle w cfg server_name check_name s =
     post_all w (alarm_header @ server_name @ '': '' @ check_name @ not_responding) (chats cfg) s"

definition NotifyWarningStrategy_handle ::
  "env \<Rightarrow> config \<Rightarrow> string \<Rightarrow> string \<Rightarrow> real \<Rightarrow> st \<Rightarrow> exn option \<times> st" where
  "NotifyWarningStrategy_handle w cfg server_name check_name v s =
     post_all w (warning_header @ server_name @ '': '' @ check_name @ '' = '' @ fmt_float w v)
       (chats cfg) s"

definition send_message :: "env \<Rightarrow> config \<Rightarrow> string \<Rightarrow> st \<Rightarrow> exn option \<times> st" where
  "send_message w cfg message s = post_all w message (chats cfg) s"

text \<open>
  \<^verbatim>\<open>connect_ssh\<close>. With \<^verbatim>\<open>server_info\<close> being \<^verbatim>\<open>None\<close>, the subscript
  \<^verbatim>\<open>server_info['host']\<close> raises inside the \<^verbatim>\<open>try\<close>, and the \<^verbatim>\<open>except\<close> clause,
  which prints \<^verbatim>\<open>server_info['name']\<close>, raises \<^verbatim>\<open>TypeError\<close> itself: that one leaves
  the method. The keyword arguments are evaluated in the order host, user, password.
\<close>

definition connect_ssh :: "env \<Rightarrow> server_config option \<Rightarrow> st \<Rightarrow> (exn + conn option) \<times> st" where
  "connect_ssh w server_info s =
     (case server_info of
        None \<Rightarrow> (Inl TypeError, s)
      | Some info \<Rightarrow>
          (case (case s_host info of
                   None \<Rightarrow> Inl (KeyError ''host'')
                 | Some h \<Rightarrow>
                     (case s_user info of
                        None \<Rightarrow> Inl (KeyError ''user'')
                      | Some u \<Rightarrow>
                          (case s_password info of
                             None \<Rightarrow> Inl (KeyError ''password'')
                           | Some p \<Rightarrow> ssh_connect w (now s) h u p))) of
             Inr ssh \<Rightarrow> (Inr (Some ssh), s)
           | Inl e \<Rightarrow>
               (Inr None, emit (LogError ''Failed to connect to {name} via SSH: {e}'' (Some e)) s)))"

text \<open>A logging call whose message prints the peer address of the session: the address is
  computed first, and computing it can raise.\<close>

definition log_peer :: "env \<Rightarrow> conn \<Rightarrow> event \<Rightarrow> st \<Rightarrow> exn option \<times> st" where
  "log_peer w ssh ev s =
     (case getpeername w ssh of Inl e \<Rightarrow> (Some e, s) | Inr peer \<Rightarrow> (None, emit ev s))"

text \<open>\<^verbatim>\<open>manage_service\<close>: \<open>body\<close> is the \<^verbatim>\<open>try\<close> block, the last case the
  \<^verbatim>\<open>except\<close> clause. \<open>SshExec\<close> records the call of \<^verbatim>\<open>exec_command\<close>.\<close>

definition manage_service ::
  "env \<Rightarrow> conn \<Rightarrow> string \<Rightarrow> string \<Rightarrow> st \<Rightarrow> exn option \<times> st" where
  "manage_service w ssh service_name action s =
     (let command = ''systemctl '' @ action @ '' '' @ service_name;
          s0 = emit (SshExec ssh command) s;
          body =
            (case exec_command w (now s) ssh command of
               Inl e \<Rightarrow> (Some e, s0)
             | Inr (stdout_text, stderr_text) \<Rightarrow>
                 (case (if stdout_text \<noteq> []
                        then log_peer w ssh
                               (LogInfo ''Output of {action} {service_name} on {peer}: {stdout_text}'') s0
                        else (None, s0)) of
                    (Some e, s1) \<Rightarrow> (Some e, s1)
                  | (None, s1) \<Rightarrow>
                      if stderr_text \<noteq> []
                      then log_peer w ssh
                             (LogError ''Error in {action} {service_name} on {peer}: {stderr_text}'' None) s1
                      else (None, s1)))
      in (case body of
            (None, s2) \<Rightarrow> (None, s2)
          | (Some e, s2) \<Rightarrow>
              log_peer w ssh
                (LogError ''Failed to {action} {service_name} on {peer}: {e}'' (Some e)) s2))"

fun disable_loop :: "env \<Rightarrow> conn \<Rightarrow> check_config list \<Rightarrow> st \<Rightarrow> exn option \<times> st" where
  "disable_loop w ssh [] s = (None, s)"
| "disable_loop w ssh (c # cs) s =
     (if c_type c = ''service''
      then (case c_service c of
              None \<Rightarrow> (Some (KeyError ''service''), s)
            | Some sv \<Rightarrow>
                (case manage_service w ssh sv ''stop'' s of
                   (Some e, s1) \<Rightarrow> (Some e, s1)
                 | (None, s1) \<Rightarrow> disable_loop w ssh cs s1))
      else disable_loop w ssh cs s)"

definition disable_services ::
  "env \<Rightarrow> conn \<Rightarrow> server_config option \<Rightarrow> st \<Rightarrow> exn option \<times> st" where
  "disable_services w ssh server_info s =
     (case server_info of
        None \<Rightarrow> (Some AttributeError, s)
      | Some info \<Rightarrow> disable_loop w ssh (s_checks info) s)"

fun enable_services :: "env \<Rightarrow> conn \<Rightarrow> string list \<Rightarrow> st \<Rightarrow> exn option \<times> st" where
  "enable_services w ssh [] s = (None, s)"
| "enable_services w ssh (sv # svs) s =
     (case manage_service w ssh sv ''start'' s of
        (Some e, s1) \<Rightarrow> (Some e, s1)
      | (None, s1) \<Rightarrow> enable_services w ssh svs s1)"

text \<open>The clause \<^verbatim>\<open>except Exception as e: logging.error(f"... {server_info['name']}: {e}")\<close>
  of the two methods below: printing \<^verbatim>\<open>server_info['name']\<close> raises when
  \<^verbatim>\<open>server_info\<close> is \<^verbatim>\<open>None\<close>.\<close>

definition except_log :: "server_config option \<Rightarrow> string \<Rightarrow> exn \<Rightarrow> st \<Rightarrow> exn option \<times> st" where
  "except_log server_info text e s =
     (case server_info of
        None \<Rightarrow> (Some TypeError, s)
      | Some info \<Rightarrow> (None, emit (LogError text (Some e)) s))"

definition connect_and_disable_services ::
  "env \<Rightarrow> server_config option \<Rightarrow> st \<Rightarrow> (exn + bool) \<times> st" where
  "connect_and_disable_services w server_info s =
     (case connect_ssh w server_info s of
        (Inl e, s1) \<Rightarrow>
          (case except_log server_info ''Error disabling services on {name}: {e}'' e s1 of
             (Some e', s2) \<Rightarrow> (Inl e', s2)
           | (None, s2) \<Rightarrow> (Inr False, s2))
      | (Inr None, s1) \<Rightarrow> (Inr False, s1)
      | (Inr (Some ssh), s1) \<Rightarrow>
          (case disable_services w ssh server_info s1 of
             (Some e, s2) \<Rightarrow>
               (case except_log server_info ''Error disabling services on {name}: {e}'' e s2 of
                  (Some e', s3) \<Rightarrow> (Inl e', s3)
                | (None, s3) \<Rightarrow> (Inr False, s3))
           | (None, s2) \<Rightarrow> (Inr True, emit (SshClose ssh) s2)))"

text \<open>In \<^verbatim>\<open>connect_and_enable_services\<close> the \<^verbatim>\<open>return False\<close> stands inside the
  \<^verbatim>\<open>except\<close> clause, so a failed connection falls off the end of the method and returns
  \<^verbatim>\<open>None\<close> (here \<open>Inr None\<close>).\<close>

definition connect_and_enable_services ::
  "env \<Rightarrow> server_config option \<Rightarrow> string list \<Rightarrow> st \<Rightarrow> (exn + bool option) \<times> st" where
  "connect_and_enable_services w server_info services s =
     (case connect_ssh w server_info s of
        (Inl e, s1) \<Rightarrow>
          (case except_log server_info ''Error enabling services on {name}: {e}'' e s1 of
             (Some e', s2) \<Rightarrow> (Inl e', s2)
           | (None, s2) \<Rightarrow> (Inr (Some False), s2))
      | (Inr None, s1) \<Rightarrow> (Inr None, s1)
      | (Inr (Some ssh), s1) \<Rightarrow>
          (case enable_services w ssh services s1 of
             (Some e, s2) \<Rightarrow>
               (case except_log server_info ''Error enabling services on {name}: {e}'' e s2 of
                  (Some e', s3) \<Rightarrow> (Inl e', s3)
                | (None, s3) \<Rightarrow> (Inr (Some False), s3))
           | (None, s2) \<Rightarrow> (Inr (Some True), emit (SshClose ssh) s2)))"

definition move_message :: "string \<Rightarrow> string \<Rightarrow> string" where
  "move_message server_name check_name =
     alarm_header @ server_name @ '' --- '' @ check_name @ not_responding @ [CHR 0x0A, CHR 0x0A]"

definition MoveServicesStrategy_handle ::
  "env \<Rightarrow> config \<Rightarrow> string \<Rightarrow> string \<Rightarrow> st \<Rightarrow> exn option \<times> st" where
  "MoveServicesStrategy_handle w cfg server_name check_name s =
     (let tg1_server_info = find (\<lambda>server. s_name server = ''TG1'') (servers cfg);
          tg2_server_info = find (\<lambda>server. s_name server = ''TG2'') (servers cfg);
          message = move_message server_name check_name
      in (case connect_and_disable_services w tg1_server_info s of
            (Inl e, s1) \<Rightarrow> (Some e, s1)
          | (Inr disabled, s1) \<Rightarrow>
              (let message1 = message @ (if disabled then tg1_disabled else tg1_failed) in
               (case connect_and_enable_services w tg2_server_info
                       [''adp-client-bot.service'', ''adp-shop-bot.service''] s1 of
                  (Inl e, s2) \<Rightarrow> (Some e, s2)
                | (Inr enabled, s2) \<Rightarrow>
                    send_message w cfg
                      (message1 @ (if enabled = Some True then tg2_enabled else tg2_failed))
                      s2))))"

text \<open>
  The call \<^verbatim>\<open>handler.handle(server_name, check_name)\<close> of \<^verbatim>\<open>handle_failure\<close> and the
  call \<^verbatim>\<open>handler.handle(server_name, check_name, value)\<close> of \<^verbatim>\<open>handle_warning\<close>.
  A call with the wrong number of arguments raises \<^verbatim>\<open>TypeError\<close> before the method
  is entered.
\<close>

definition handle2 ::
  "env \<Rightarrow> config \<Rightarrow> strategy \<Rightarrow> string \<Rightarrow> string \<Rightarrow> st \<Rightarrow> exn option \<times> st" where
  "handle2 w cfg handler server_name check_name s =
     (case handler of
        NotifyFailureStrategy \<Rightarrow>
          NotifyFailureStrategy_handle w cfg server_name check_name
            (emit (Enter_handle handler server_name check_name) s)
      | MoveServicesStrategy \<Rightarrow>
          MoveServicesStrategy_handle w cfg server_name check_name
            (emit (Enter_handle handler server_name check_name) s)
      | NotifyWarningStrategy \<Rightarrow> (Some TypeError, s))"

definition handle3 ::
  "env \<Rightarrow> config \<Rightarrow> strategy \<Rightarrow> string \<Rightarrow> string \<Rightarrow> real \<Rightarrow> st \<Rightarrow> exn option \<times> st" where
  "handle3 w cfg handler server_name check_name v s =
     (case handler of
        NotifyWarningStrategy \<Rightarrow>
          NotifyWarningStrategy_handle w cfg server_name check_name v
            (emit (Enter_handle handler server_name check_name) s)
      | NotifyFailureStrategy \<Rightarrow> (Some TypeError, s)
      | MoveServicesStrategy \<Rightarrow> (Some TypeError, s))"

section \<open>The check manager (main.py)\<close>

subsection \<open>Recording an outcome\<close>

text \<open>The three steps that \<^verbatim>\<open>log_result\<close> makes on the aggregate: the test
  \<^verbatim>\<open>server_name not in self.aggregate_results\<close>, the assignment of an empty list, and
  \<^verbatim>\<open>self.aggregate_results[server_name].append(...)\<close>, which raises when the value under
  the key is the time stamp string.\<close>

definition agg_contains :: "aggregate \<Rightarrow> string \<Rightarrow> bool" where
  "agg_contains agg k = (map_of agg k \<noteq> None)"

definition agg_create :: "string \<Rightarrow> aggregate \<Rightarrow> aggregate" where
  "agg_create k agg = AList.update k (Entries []) agg"

definition agg_append :: "string \<Rightarrow> entry \<Rightarrow> aggregate \<Rightarrow> exn + aggregate" where
  "agg_append k e agg =
     (case map_of agg k of
        None \<Rightarrow> Inl (KeyError k)
      | Some (Stamp t) \<Rightarrow> Inl AttributeError
      | Some (Entries es) \<Rightarrow> Inr (AList.update k (Entries (es @ [e])) agg))"

definition success_text :: "bool \<Rightarrow> string" where
  "success_text result = (if result then ''Success'' else ''Failure'')"

definition log_line :: "env \<Rightarrow> string \<Rightarrow> string \<Rightarrow> bool \<Rightarrow> real option \<Rightarrow> string" where
  "log_line w server_name check_name result rt =
     (if check_name \<in> set [''CPU'', ''RAM'', ''DISK SPACE'']
      then server_name @ '' --- '' @ check_name @ '' --- '' @ success_text result @ '' | '' @
             (case rt of Some t \<Rightarrow> ''Usage: '' @ fmt_float w (round3 w t) @ ''%'' | None \<Rightarrow> [])
      else server_name @ '' --- '' @ check_name @ '' --- '' @ success_text result @ '' | '' @
             (case rt of
                Some t \<Rightarrow> '' Response Time: '' @ fmt_float w (round3 w t) @ '' seconds''
              | None \<Rightarrow> []))"

definition log_result ::
  "env \<Rightarrow> string \<Rightarrow> string \<Rightarrow> bool \<Rightarrow> real option \<Rightarrow> st \<Rightarrow> exn option \<times> st" where
  "log_result w server_name check_name result rt s =
     (case (if server_name \<in> set (loggers s) then (None, s)
            else (case open_log w (''logs/'' @ server_name @ ''_checks.log'') of
                    Some e \<Rightarrow> (Some e, s)
                  | None \<Rightarrow> (None, s\<lparr>loggers := loggers s @ [server_name]\<rparr>))) of
        (Some e, s1) \<Rightarrow> (Some e, s1)
      | (None, s1) \<Rightarrow>
          (let s2 = emit (ServerLog server_name (log_line w server_name check_name result rt)) s1;
               s3 = (if \<not> agg_contains (aggregate_results s2) server_name
                     then s2\<lparr>aggregate_results := agg_create server_name (aggregate_results s2)\<rparr>
                     else s2)
           in (case agg_append server_name
                       \<lparr>e_check_name = check_name, e_result = success_text result,
                        e_response_time = map_option (round3 w) rt\<rparr>
                       (aggregate_results s3) of
                 Inl e \<Rightarrow> (Some e, s3)
               | Inr a \<Rightarrow> (None, s3\<lparr>aggregate_results := a\<rparr>))))"

subsection \<open>Escalation\<close>

text \<open>\<^verbatim>\<open>json.load\<close> of a file content: a document with nothing but white space in it has
  no value and is refused; the decoding of any other content is the library's.\<close>

definition json_ws :: "char \<Rightarrow> bool" where
  "json_ws c = (c = CHR '' '' \<or> c = CHR 0x09 \<or> c = CHR 0x0A \<or> c = CHR 0x0D)"

definition json_load :: "env \<Rightarrow> string \<Rightarrow> exn + pyval" where
  "json_load w content =
     (if dropWhile json_ws content = [] then Inl JSONDecodeError else json_decode w content)"

definition handle_failure ::
  "env \<Rightarrow> config \<Rightarrow> string \<Rightarrow> string \<Rightarrow> string \<Rightarrow> st \<Rightarrow> exn option \<times> st" where
  "handle_failure w cfg server_name check_name check_type s =
     (let s0 = emit (Enter_handle_failure server_name check_name check_type) s in
      (case snapshot_file s0 of
         None \<Rightarrow> (Some FileNotFoundError, s0)
       | Some content \<Rightarrow>
           (case json_load w content of
              Inl e \<Rightarrow> (Some e, s0)
            | Inr data \<Rightarrow>
                handle2 w cfg (get_strategy server_name check_type data) server_name check_name
                  s0)))"

definition handle_warning ::
  "env \<Rightarrow> config \<Rightarrow> string \<Rightarrow> string \<Rightarrow> real \<Rightarrow> st \<Rightarrow> exn option \<times> st" where
  "handle_warning w cfg server_name check_name v s =
     handle3 w cfg (get_strategy server_name check_name (PyStr ''warning'')) server_name
       check_name v (emit (Enter_handle_warning server_name check_name v) s)"

subsection \<open>One check execution\<close>

text \<open>The \<^verbatim>\<open>if\<close>/\<^verbatim>\<open>elif\<close> chain of \<^verbatim>\<open>run_check\<close> that constructs the monitor;
  \<open>Inr None\<close> is the bare \<^verbatim>\<open>return\<close> of the final \<^verbatim>\<open>else\<close>.\<close>

definition select_monitor :: "server_config \<Rightarrow> check_config \<Rightarrow> exn + monitor option" where
  "select_monitor server chk =
     (let host = s_host server in
      if c_type chk = ''ping'' then Inr (Some (ServerPingMonitor host))
      else if c_type chk = ''telnet'' then
        (case c_port chk of
           None \<Rightarrow> Inl (KeyError ''port'')
         | Some p \<Rightarrow> Inr (Some (TelnetMonitor host p)))
      else if c_type chk = ''service'' then
        (case s_user server of
           None \<Rightarrow> Inl (KeyError ''user'')
         | Some u \<Rightarrow>
             (case s_password server of
                None \<Rightarrow> Inl (KeyError ''password'')
              | Some pw \<Rightarrow>
                  (case c_service chk of
                     None \<Rightarrow> Inl (KeyError ''service'')
                   | Some sv \<Rightarrow> Inr (Some (ServiceMonitor host 22 u pw sv)))))
      else if c_type chk = ''cpu'' then Inr (Some CPUMonitor)
      else if c_type chk = ''ram'' then Inr (Some RAMMonitor)
      else if c_type chk = ''disk_space'' then Inr (Some (DiskMonitor ''/''))
      else Inr None)"

text \<open>The classification at the end of the \<^verbatim>\<open>try\<close> block, after the outcome has been
  recorded. The test on the type is Python's substring test on the string
  \<^verbatim>\<open>'cpu ram disk_space'\<close>.\<close>

definition classify ::
  "env \<Rightarrow> config \<Rightarrow> server_config \<Rightarrow> check_config \<Rightarrow> bool \<Rightarrow> real \<Rightarrow> st \<Rightarrow> exn option \<times> st" where
  "classify w cfg server chk result rt s =
     (if \<not> str_in (c_type chk) ''cpu ram disk_space'' then
        (if \<not> result then handle_failure w cfg (s_name server) (c_name chk) (c_type chk) s
         else if rt \<ge> response_time_limit cfg then
           handle_warning w cfg (s_name server) (c_name chk) rt s
         else (None, s))
      else if str_in (c_type chk) ''cpu ram disk_space'' then
        (case map_of (resourse_limits cfg) (c_name chk) of
           None \<Rightarrow> (Some (KeyError (c_name chk)), s)
         | Some limit \<Rightarrow>
             if rt \<ge> limit then handle_warning w cfg (s_name server) (c_name chk) rt s
             else (None, s))
      else (None, s))"

definition run_check_try ::
  "env \<Rightarrow> config \<Rightarrow> server_config \<Rightarrow> check_config \<Rightarrow> st \<Rightarrow> exn option \<times> st" where
  "run_check_try w cfg server chk s =
     (case select_monitor server chk of
        Inl e \<Rightarrow> (Some e, s)
      | Inr None \<Rightarrow> (None, s)
      | Inr (Some monitor) \<Rightarrow>
          (case check w monitor s of
             (Inl e, s1) \<Rightarrow> (Some e, s1)
           | (Inr result, s1) \<Rightarrow>
               (case response_time w monitor s1 of
                  (Inl e, s2) \<Rightarrow> (Some e, s2)
                | (Inr rt, s2) \<Rightarrow>
                    (case log_result w (s_name server) (c_name chk) result (Some rt) s2 of
                       (Some e, s3) \<Rightarrow> (Some e, s3)
                     | (None, s3) \<Rightarrow> classify w cfg server chk result rt s3))))"

text \<open>\<^verbatim>\<open>run_check\<close>: the \<^verbatim>\<open>try\<close> block and \<^verbatim>\<open>except Exception as e: logging.error(e)\<close>.\<close>

definition run_check :: "env \<Rightarrow> config \<Rightarrow> server_config \<Rightarrow> check_config \<Rightarrow> st \<Rightarrow> st" where
  "run_check w cfg server chk s =
     (case run_check_try w cfg server chk s of
        (None, s') \<Rightarrow> s'
      | (Some e, s') \<Rightarrow> emit (LogError ''{e}'' (Some e)) s')"

subsection \<open>The flush and its reader\<close>

text \<open>
  \<^verbatim>\<open>save_aggregate_results\<close> in two steps. \<open>save_open\<close>: the time stamp is stored in the
  aggregate and \<^verbatim>\<open>open("./aggregate_results.json", "w")\<close> truncates the file in place.
  \<open>save_write\<close>: the serialised aggregate is written and the file is closed. Between the two
  the file is empty.
\<close>

definition save_open :: "env \<Rightarrow> st \<Rightarrow> st" where
  "save_open w s =
     s\<lparr>aggregate_results :=
          AList.update ''last-check-time'' (Stamp (strftime w (now s))) (aggregate_results s),
       snapshot_file := Some []\<rparr>"

definition save_write :: "env \<Rightarrow> st \<Rightarrow> st" where
  "save_write w s = emit Flush (s\<lparr>snapshot_file := Some (json_dumps w (aggregate_results s))\<rparr>)"

definition save_aggregate_results :: "env \<Rightarrow> st \<Rightarrow> st" where
  "save_aggregate_results w s = save_write w (save_open w s)"

text \<open>\<^verbatim>\<open>read_results\<close> of api.py, run by another process at any moment.\<close>

definition read_results :: "env \<Rightarrow> st \<Rightarrow> exn + pyval" where
  "read_results w s =
     (case snapshot_file s of
        None \<Rightarrow> Inl FileNotFoundError
      | Some content \<Rightarrow> json_load w content)"

subsection \<open>The round loop\<close>

text \<open>The names bound in the module main.py: its imports, its classes and its function.\<close>

definition main_globals :: "string list" where
  "main_globals =
     [''ABC'', ''abstractmethod'', ''subprocess'', ''psutil'', ''telnetlib'', ''time'',
      ''paramiko'', ''servers'', ''resourse_limits'', ''response_time_limit'', ''Thread'',
      ''logging'', ''json'', ''datetime'', ''StrategyFactory'', ''IMonitorStrategy'',
      ''ServerPingMonitor'', ''TelnetMonitor'', ''ServiceMonitor'', ''CPUMonitor'', ''RAMMonitor'',
      ''DiskMonitor'', ''CheckManager'', ''start_monitoring'']"

text \<open>The name that \<^verbatim>\<open>start\<close> calls to make a thread, as the source spells it: the second
  letter is the Cyrillic letter ef (U+0444), two bytes in UTF-8.\<close>

definition thread_ctor :: string where
  "thread_ctor = ''T'' @ [CHR 0xD1, CHR 0x84] @ ''hread''"

text \<open>
  The call \<^verbatim>\<open>name(target=self.run_check, args=(server, check,))\<close>. A name that is neither
  bound in the module nor a builtin raises \<^verbatim>\<open>NameError\<close> (no builtin has a letter outside
  ASCII); \<^verbatim>\<open>Thread\<close> makes a thread; no other name of the module takes these keyword
  arguments.
\<close>

definition call_thread_ctor ::
  "string \<Rightarrow> server_config \<times> check_config \<Rightarrow> exn + server_config \<times> check_config" where
  "call_thread_ctor nm target =
     (if nm \<notin> set main_globals then Inl (NameError nm)
      else if nm = ''Thread'' then Inr target
      else Inl TypeError)"

text \<open>The two nested \<^verbatim>\<open>for\<close> loops of \<^verbatim>\<open>start\<close> run over these pairs.\<close>

definition pairs :: "config \<Rightarrow> (server_config \<times> check_config) list" where
  "pairs cfg = concat (map (\<lambda>server. map (\<lambda>chk. (server, chk)) (s_checks server)) (servers cfg))"

text \<open>
  Creating, appending and starting one thread per pair. The work of a started thread,
  \<^verbatim>\<open>run_check\<close>, is placed at its start and runs to its end there; how the steps of
  several workers can interleave is the subject of the step machine below.
\<close>

fun launch ::
  "env \<Rightarrow> config \<Rightarrow> (server_config \<times> check_config) list \<Rightarrow> st \<Rightarrow> exn option \<times> st" where
  "launch w cfg [] s = (None, s)"
| "launch w cfg (p # ps) s =
     (case call_thread_ctor thread_ctor p of
        Inl e \<Rightarrow> (Some e, s)
      | Inr thread \<Rightarrow>
          launch w cfg ps
            (run_check w cfg (fst thread) (snd thread)
               (emit (ThreadStart (s_name (fst thread)) (c_name (snd thread)))
                  (s\<lparr>threads := threads s @ [thread]\<rparr>))))"

definition join_all :: "st \<Rightarrow> st" where
  "join_all s = foldl (\<lambda>s' thread. emit (ThreadJoin (s_name (fst thread)) (c_name (snd thread))) s')
     s (threads s)"

text \<open>One pass of the body of \<^verbatim>\<open>while True\<close>.\<close>

definition round_body :: "env \<Rightarrow> config \<Rightarrow> st \<Rightarrow> exn option \<times> st" where
  "round_body w cfg s =
     (case launch w cfg (pairs cfg) s of
        (Some e, s1) \<Rightarrow> (Some e, s1)
      | (None, s1) \<Rightarrow>
          (let s2 = join_all s1;
               s3 = save_aggregate_results w s2;
               s4 = s3\<lparr>threads := []\<rparr>
           in (None, emit (Sleep 60) (tick 60 s4))))"

text \<open>\<^verbatim>\<open>start\<close>: the loop has no exit of its own, so it is run for a number of rounds.
  \<open>(None, s)\<close> says that the loop is still running after that many rounds, \<open>(Some e, s)\<close>
  that the exception \<open>e\<close> has left \<^verbatim>\<open>start\<close>, and with it the program.\<close>

fun start :: "env \<Rightarrow> config \<Rightarrow> nat \<Rightarrow> st \<Rightarrow> exn option \<times> st" where
  "start w cfg 0 s = (None, s)"
| "start w cfg (Suc n) s =
     (case round_body w cfg s of
        (Some e, s1) \<Rightarrow> (Some e, s1)
      | (None, s1) \<Rightarrow> start w cfg n s1)"

subsection \<open>Workers that interleave\<close>

text \<open>
  Several threads run \<^verbatim>\<open>log_result\<close> on the one aggregate and no lock is taken anywhere in
  main.py. A worker is at one of the three steps of \<^verbatim>\<open>log_result\<close> on the aggregate, or has
  finished or failed; a schedule says which worker makes the next step.
\<close>

datatype pc = At_test | At_create | At_append | Finished | Failed exn

record worker =
  w_server :: string
  w_entry :: entry
  w_pc :: pc

definition worker_step :: "worker \<Rightarrow> aggregate \<Rightarrow> worker \<times> aggregate" where
  "worker_step wk agg =
     (case w_pc wk of
        At_test \<Rightarrow>
          (if \<not> agg_contains agg (w_server wk) then (wk\<lparr>w_pc := At_create\<rparr>, agg)
           else (wk\<lparr>w_pc := At_append\<rparr>, agg))
      | At_create \<Rightarrow> (wk\<lparr>w_pc := At_append\<rparr>, agg_create (w_server wk) agg)
      | At_append \<Rightarrow>
          (case agg_append (w_server wk) (w_entry wk) agg of
             Inl e \<Rightarrow> (wk\<lparr>w_pc := Failed e\<rparr>, agg)
           | Inr a \<Rightarrow> (wk\<lparr>w_pc := Finished\<rparr>, a))
      | Finished \<Rightarrow> (wk, agg)
      | Failed e \<Rightarrow> (wk, agg))"

fun run_schedule :: "nat list \<Rightarrow> worker list \<Rightarrow> aggregate \<Rightarrow> worker list \<times> aggregate" where
  "run_schedule [] wks agg = (wks, agg)"
| "run_schedule (i # sched) wks agg =
     (if i < length wks
      then (case worker_step (wks ! i) agg of
              (wk', agg') \<Rightarrow> run_schedule sched (wks[i := wk']) agg')
      else run_schedule sched wks agg)"

text \<open>The number of entries that the aggregate holds, over all servers.\<close>

fun entries_of :: "aggval \<Rightarrow> entry list" where
  "entries_of (Entries es) = es"
| "entries_of (Stamp t) = []"

definition count_entries :: "aggregate \<Rightarrow> nat" where
  "count_entries agg = sum_list (map (\<lambda>kv. length (entries_of (snd kv))) agg)"

text \<open>The schedule in which worker 0 makes its three steps, then worker 1, and so on: no two
  workers interleave.\<close>

definition serial_from :: "nat \<Rightarrow> nat \<Rightarrow> nat list" where
  "serial_from k n = concat (map (\<lambda>i. [i, i, i]) [k..<n])"

definition serial :: "nat \<Rightarrow> nat list" where
  "serial n = serial_from 0 n"

text \<open>The append of a worker can succeed: the value under its key is not the time stamp.\<close>

definition appendable :: "aggregate \<Rightarrow> string \<Rightarrow> bool" where
  "appendable agg k = (case map_of agg k of Some (Stamp t) \<Rightarrow> False | _ \<Rightarrow> True)"

section \<open>Observations on a run\<close>

text \<open>A dispatch is a call of \<^verbatim>\<open>handle_failure\<close> or of \<^verbatim>\<open>handle_warning\<close>.\<close>

fun is_dispatch :: "event \<Rightarrow> bool" where
  "is_dispatch (Enter_handle_failure sv c t) = True"
| "is_dispatch (Enter_handle_warning sv c v) = True"
| "is_dispatch ev = False"

definition dispatches :: "st \<Rightarrow> event list" where
  "dispatches s = filter is_dispatch (trace s)"

fun is_post :: "event \<Rightarrow> bool" where
  "is_post (Post chat message) = True"
| "is_post ev = False"

definition posts :: "st \<Rightarrow> event list" where
  "posts s = filter is_post (trace s)"

text \<open>Everything the escalation machinery does: a dispatch, the call of a strategy's
  \<^verbatim>\<open>handle\<close>, an alert post, a remote command.\<close>

fun is_escalation :: "event \<Rightarrow> bool" where
  "is_escalation (Enter_handle_failure sv c t) = True"
| "is_escalation (Enter_handle_warning sv c v) = True"
| "is_escalation (Enter_handle h sv c) = True"
| "is_escalation (Post chat message) = True"
| "is_escalation (SshExec ssh command) = True"
| "is_escalation (SshClose ssh) = True"
| "is_escalation ev = False"

definition escalations :: "st \<Rightarrow> event list" where
  "escalations s = filter is_escalation (trace s)"

text \<open>\<open>s'\<close> is \<open>s\<close> with events appended to its trace, each of them satisfying \<open>P\<close>, and
  nothing else changed.\<close>

definition appends_only :: "(event \<Rightarrow> bool) \<Rightarrow> st \<Rightarrow> st \<Rightarrow> bool" where
  "appends_only P s s' = (\<exists>evs. s' = s\<lparr>trace := trace s @ evs\<rparr> \<and> list_all P evs)"

text \<open>The call of the \<^verbatim>\<open>handle\<close> method of a strategy: the strategy that was selected
  is invoked.\<close>

fun is_handle :: "event \<Rightarrow> bool" where
  "is_handle (Enter_handle h sv c) = True"
| "is_handle ev = False"

definition invocations :: "st \<Rightarrow> event list" where
  "invocations s = filter is_handle (trace s)"

definition quiet :: "event \<Rightarrow> bool" where
  "quiet ev = (\<not> is_dispatch ev \<and> \<not> is_post ev \<and> \<not> is_handle ev)"

definition in_handler :: "event \<Rightarrow> bool" where
  "in_handler ev = (\<not> is_dispatch ev \<and> \<not> is_handle ev)"

definition no_dispatch :: "event \<Rightarrow> bool" where
  "no_dispatch ev = (\<not> is_dispatch ev)"

text \<open>What a probe leaves alone: everything but the clock and the lines of the root logger.\<close>

definition probe_frame :: "st \<Rightarrow> st \<Rightarrow> bool" where
  "probe_frame s s' =
     (aggregate_results s' = aggregate_results s \<and> threads s' = threads s \<and>
      loggers s' = loggers s \<and> snapshot_file s' = snapshot_file s \<and>
      escalations s' = escalations s)"

text \<open>\<^verbatim>\<open>log_result\<close> can do its work for the server: the log file of the server is open
  already or can be opened, and the value under the server's name in the aggregate is not the
  time stamp.\<close>

definition can_log :: "env \<Rightarrow> st \<Rightarrow> string \<Rightarrow> bool" where
  "can_log w s server_name =
     ((server_name \<in> set (loggers s) \<or>
       open_log w (''logs/'' @ server_name @ ''_checks.log'') = None) \<and>
      appendable (aggregate_results s) server_name)"

text \<open>The six types for which \<^verbatim>\<open>run_check\<close> has a monitor.\<close>

definition recognized :: "check_config \<Rightarrow> bool" where
  "recognized chk =
     (c_type chk \<in> set [''ping'', ''telnet'', ''service'', ''cpu'', ''ram'', ''disk_space''])"

text \<open>The execution of the pair in state \<open>s\<close> records its outcome: the monitor is
  constructed, both probes return and \<^verbatim>\<open>log_result\<close> returns.\<close>

definition recorded :: "env \<Rightarrow> server_config \<Rightarrow> check_config \<Rightarrow> st \<Rightarrow> bool" where
  "recorded w server chk s =
     (case select_monitor server chk of
        Inr (Some m) \<Rightarrow>
          (case check w m s of
             (Inr r, s1) \<Rightarrow>
               (case response_time w m s1 of
                  (Inr t, s2) \<Rightarrow>
                    fst (log_result w (s_name server) (c_name chk) r (Some t) s2) = None
                | (Inl e, s2) \<Rightarrow> False)
           | (Inl e, s1) \<Rightarrow> False)
      | Inr None \<Rightarrow> False
      | Inl e \<Rightarrow> False)"

text \<open>The work of the threads of one round, one \<^verbatim>\<open>run_check\<close> after the other, and the
  number of pairs among them that record their outcome.\<close>

fun run_workers ::
  "env \<Rightarrow> config \<Rightarrow> (server_config \<times> check_config) list \<Rightarrow> st \<Rightarrow> st" where
  "run_workers w cfg [] s = s"
| "run_workers w cfg (p # ps) s = run_workers w cfg ps (run_check w cfg (fst p) (snd p) s)"

fun completed ::
  "env \<Rightarrow> config \<Rightarrow> (server_config \<times> check_config) list \<Rightarrow> st \<Rightarrow> nat" where
  "completed w cfg [] s = 0"
| "completed w cfg (p # ps) s =
     (if recorded w (fst p) (snd p) s then 1 else 0) +
     completed w cfg ps (run_check w cfg (fst p) (snd p) s)"

section \<open>Example worlds and configurations\<close>

text \<open>A world in which pings get no answer, port connections time out after ten seconds, the
  services are active, the load average is 3.5 on four processors (87.5 percent, computed
  without rounding error), and every SSH session, log file and alert post succeeds.\<close>

definition demo_env :: env where
  "demo_env =
     \<lparr>run_ping = (\<lambda>t host. (1, Inr (1, ''no answer''))),
      telnet_open = (\<lambda>t host port. (10, Some (LibraryError ''timed out''))),
      ssh_is_active = (\<lambda>t host port user password sv. (2, Inr ''active'')),
      getloadavg = (\<lambda>t. Inr 3.5),
      cpu_count = Some 4,
      float_div = (\<lambda>x y. x / y),
      float_mul = (\<lambda>x y. x * y),
      virtual_memory = (\<lambda>t. Inr 40),
      disk_usage = (\<lambda>t disk. Inr 55),
      pyfloat = (\<lambda>text. Inr 0.5),
      round3 = (\<lambda>x. x),
      fmt_float = (\<lambda>x. ''x''),
      strftime = (\<lambda>t. ''2024''),
      open_log = (\<lambda>path. None),
      json_dumps = (\<lambda>agg. ''{}''),
      json_decode = (\<lambda>content. Inr (PyDict [])),
      ssh_connect = (\<lambda>t host user password. Inr host),
      exec_command = (\<lambda>t ssh command. Inr ([], [])),
      getpeername = (\<lambda>ssh. Inr ssh),
      requests_post = (\<lambda>t chat message. None)\<rparr>"


definition no_logs_env :: env where
  "no_logs_env = demo_env\<lparr>open_log := (\<lambda>path. Some FileNotFoundError)\<rparr>"

definition no_ping_env :: env where
  "no_ping_env = demo_env\<lparr>run_ping := (\<lambda>t host. (0, Inl FileNotFoundError))\<rparr>"


definition ping_check :: check_config where
  "ping_check = \<lparr>c_name = ''Ping'', c_type = ''ping'', c_port = None, c_service = None\<rparr>"

definition telnet_check :: check_config where
  "telnet_check =
     \<lparr>c_name = ''Telnet'', c_type = ''telnet'', c_port = Some 23, c_service = None\<rparr>"

definition telnet_no_port :: check_config where
  "telnet_no_port =
     \<lparr>c_name = ''Telnet'', c_type = ''telnet'', c_port = None, c_service = None\<rparr>"

definition bot_check :: check_config where
  "bot_check = \<lparr>c_name = ''Bot'', c_type = ''service'', c_port = None,
     c_service = Some ''adp-client-bot.service''\<rparr>"

definition cpu_check :: check_config where
  "cpu_check = \<lparr>c_name = ''CPU'', c_type = ''cpu'', c_port = None, c_service = None\<rparr>"

definition snmp_check :: check_config where
  "snmp_check = \<lparr>c_name = ''SNMP'', c_type = ''snmp'', c_port = None, c_service = None\<rparr>"

definition tg1 :: server_config where
  "tg1 = \<lparr>s_name = ''TG1'', s_host = Some ''10.0.0.1'', s_user = Some ''root'',
     s_password = Some ''pw'', s_checks = [ping_check, bot_check]\<rparr>"

definition tg2 :: server_config where
  "tg2 = \<lparr>s_name = ''TG2'', s_host = Some ''10.0.0.2'', s_user = Some ''root'',
     s_password = Some ''pw'', s_checks = []\<rparr>"

definition web1 :: server_config where
  "web1 = \<lparr>s_name = ''WEB1'', s_host = Some ''10.0.0.5'', s_user = None,
     s_password = None, s_checks = [cpu_check, telnet_check]\<rparr>"

definition demo_config :: config where
  "demo_config = \<lparr>servers = [tg1, tg2, web1], resourse_limits = [(''CPU'', 80)],
     response_time_limit = 5, chats = [''1001'', ''1002'']\<rparr>"

text \<open>The program after \<^verbatim>\<open>CheckManager.__init__\<close>: nothing recorded, no snapshot file
  yet, and \<^verbatim>\<open>logging.basicConfig\<close> has given its handler to the root logger, which is
  the logger of the empty name and of the name \<^verbatim>\<open>root\<close>.\<close>

definition s_init :: st where
  "s_init = \<lparr>aggregate_results = [], threads = [], loggers = ['''', ''root''],
     snapshot_file = None, now = 0, trace = []\<rparr>"

text \<open>Two workers that record an outcome each for the same server.\<close>

definition entry_a :: entry where
  "entry_a = \<lparr>e_check_name = ''Ping'', e_result = ''Success'', e_response_time = Some 1\<rparr>"

definition entry_b :: entry where
  "entry_b = \<lparr>e_check_name = ''Bot'', e_result = ''Success'', e_response_time = Some 0\<rparr>"

definition worker_a :: worker where
  "worker_a = \<lparr>w_server = ''TG1'', w_entry = entry_a, w_pc = At_test\<rparr>"

definition worker_b :: worker where
  "worker_b = \<lparr>w_server = ''TG1'', w_entry = entry_b, w_pc = At_test\<rparr>"

section \<open>Properties\<close>

subsection \<open>Events appended to the trace\<close>

lemma str_in_types:
  "\<not> str_in ''ping'' ''cpu ram disk_space''"
  "\<not> str_in ''telnet'' ''cpu ram disk_space''"
  "\<not> str_in ''service'' ''cpu ram disk_space''"
  "str_in ''cpu'' ''cpu ram disk_space''"
  "str_in ''ram'' ''cpu ram disk_space''"
  "str_in ''disk_space'' ''cpu ram disk_space''"
  by (simp_all add: str_in_def startswith_def)

lemma appends_only_refl: "appends_only P s s"
  unfolding appends_only_def by (rule exI [of _ "[]"]) simp

lemma appends_only_emit: "P ev \<Longrightarrow> appends_only P s (emit ev s)"
  unfolding appends_only_def emit_def by (rule exI [of _ "[ev]"]) simp

lemma appends_only_trans:
  assumes "appends_only P s s1" and "appends_only P s1 s2"
  shows "appends_only P s s2"
proof -
  from assms(1) obtain evs where e1: "s1 = s\<lparr>trace := trace s @ evs\<rparr>" "list_all P evs"
    by (auto simp: appends_only_def)
  from assms(2) obtain evs' where e2: "s2 = s1\<lparr>trace := trace s1 @ evs'\<rparr>" "list_all P evs'"
    by (auto simp: appends_only_def)
  have "s2 = s\<lparr>trace := trace s @ (evs @ evs')\<rparr>" using e1 e2 by simp
  moreover have "list_all P (evs @ evs')" using e1 e2 by simp
  ultimately show ?thesis unfolding appends_only_def by blast
qed

lemma appends_only_mono:
  assumes "appends_only P s s'" and "\<And>ev. P ev \<Longrightarrow> Q ev"
  shows "appends_only Q s s'"
  using assms by (auto simp: appends_only_def list_all_iff)

lemma appends_only_fields:
  assumes "appends_only P s s'"
  shows "aggregate_results s' = aggregate_results s" "threads s' = threads s"
    "loggers s' = loggers s" "snapshot_file s' = snapshot_file s" "now s' = now s"
  using assms by (auto simp: appends_only_def)

lemma appends_only_filter:
  assumes "appends_only P s s'" and "\<And>ev. P ev \<Longrightarrow> \<not> Q ev"
  shows "filter Q (trace s') = filter Q (trace s)"
proof -
  from assms(1) obtain evs where e: "s' = s\<lparr>trace := trace s @ evs\<rparr>" "list_all P evs"
    by (auto simp: appends_only_def)
  have "filter Q evs = []" using e(2) assms(2) by (auto simp: list_all_iff filter_empty_conv)
  then show ?thesis using e(1) by simp
qed

lemma dispatches_emit:
  "dispatches (emit ev s) = dispatches s @ (if is_dispatch ev then [ev] else [])"
  by (simp add: dispatches_def emit_def)

lemma no_dispatch_dispatches:
  "appends_only no_dispatch s s' \<Longrightarrow> dispatches s' = dispatches s"
  using appends_only_filter [of no_dispatch s s' is_dispatch]
  by (simp add: dispatches_def no_dispatch_def)

lemma dispatches_escalations: "dispatches s = filter is_dispatch (escalations s)"
proof -
  have "is_dispatch ev \<Longrightarrow> is_escalation ev" for ev by (cases ev) simp_all
  then have "filter is_dispatch (filter is_escalation xs) = filter is_dispatch xs" for xs
    by (induction xs) auto
  then show ?thesis by (simp add: dispatches_def escalations_def)
qed



lemma quiet_no_dispatch: "quiet ev \<Longrightarrow> no_dispatch ev"
  by (simp add: quiet_def no_dispatch_def)

lemma quiet_close: "quiet (SshClose ssh)"
  by (simp add: quiet_def)

lemma no_dispatch_enter: "no_dispatch (Enter_handle h sv c)"
  by (simp add: no_dispatch_def)

lemma escalations_emit_log [simp]: "escalations (emit (LogError x y) s) = escalations s"
  by (simp add: escalations_def emit_def)

lemma dispatches_emit_log [simp]: "dispatches (emit (LogError x y) s) = dispatches s"
  by (simp add: dispatches_def emit_def)

lemma aggregate_emit [simp]: "aggregate_results (emit ev s) = aggregate_results s"
  by (simp add: emit_def)

subsection \<open>What the handlers leave alone\<close>

lemma post_all_appends:
  "post_all w m ids s = (r, s') \<Longrightarrow> appends_only no_dispatch s s'"
proof (induction ids arbitrary: s)
  case Nil
  then show ?case by (simp add: appends_only_refl)
next
  case (Cons c ids)
  show ?case
  proof (cases "requests_post w (now s) c m")
    case None
    with Cons.prems have "post_all w m ids (emit (Post c m) s) = (r, s')" by simp
    then have "appends_only no_dispatch (emit (Post c m) s) s'" by (rule Cons.IH)
    moreover have "appends_only no_dispatch s (emit (Post c m) s)"
      by (rule appends_only_emit) (simp add: no_dispatch_def)
    ultimately show ?thesis by (blast intro: appends_only_trans)
  next
    case (Some e)
    with Cons.prems show ?thesis by (simp add: appends_only_refl)
  qed
qed


lemma connect_ssh_appends:
  "connect_ssh w info s = (r, s') \<Longrightarrow> appends_only quiet s s'"
  by (auto simp: connect_ssh_def quiet_def appends_only_refl split: option.splits sum.splits
      intro!: appends_only_emit)


lemma log_peer_appends:
  "log_peer w ssh ev s = (r, s') \<Longrightarrow> quiet ev \<Longrightarrow> appends_only quiet s s'"
  by (auto simp: log_peer_def appends_only_refl split: sum.splits intro!: appends_only_emit)

lemma manage_service_appends:
  assumes "manage_service w ssh sv action s = (r, s')"
  shows "appends_only quiet s s'"
proof -
  have q: "quiet (SshExec ssh c)" "quiet (LogInfo x)" "quiet (LogError y z)" for c x y z
    by (simp_all add: quiet_def)
  have s0: "appends_only quiet s (emit (SshExec ssh c) s)" for c
    by (rule appends_only_emit) (rule q)
  show ?thesis using assms
    unfolding manage_service_def Let_def
    by (auto split: sum.splits prod.splits option.splits if_splits
        dest!: log_peer_appends [OF _ q(2)] log_peer_appends [OF _ q(3)];
        blast intro: appends_only_trans s0)
qed

lemma disable_loop_appends:
  "disable_loop w ssh cs s = (r, s') \<Longrightarrow> appends_only quiet s s'"
proof (induction cs arbitrary: s)
  case Nil
  then show ?case by (simp add: appends_only_refl)
next
  case (Cons c cs)
  then show ?case
    by (auto split: if_splits option.splits prod.splits simp: appends_only_refl
        dest!: manage_service_appends intro: appends_only_trans)
qed

lemma disable_services_appends:
  "disable_services w ssh info s = (r, s') \<Longrightarrow> appends_only quiet s s'"
  by (auto simp: disable_services_def appends_only_refl split: option.splits
      dest: disable_loop_appends)

lemma enable_services_appends:
  "enable_services w ssh svs s = (r, s') \<Longrightarrow> appends_only quiet s s'"
proof (induction svs arbitrary: s)
  case Nil
  then show ?case by (simp add: appends_only_refl)
next
  case (Cons sv svs)
  then show ?case
    by (auto split: option.splits prod.splits simp: appends_only_refl
        dest!: manage_service_appends intro: appends_only_trans)
qed

lemma except_log_appends:
  "except_log info text e s = (r, s') \<Longrightarrow> appends_only quiet s s'"
  by (auto simp: except_log_def appends_only_refl quiet_def split: option.splits
      intro!: appends_only_emit)


lemma connect_and_disable_appends:
  "connect_and_disable_services w info s = (r, s') \<Longrightarrow> appends_only quiet s s'"
  unfolding connect_and_disable_services_def
  by (auto split: prod.splits sum.splits option.splits
      dest!: connect_ssh_appends disable_services_appends except_log_appends;
      blast intro: appends_only_trans appends_only_emit quiet_close)

lemma connect_and_enable_appends:
  "connect_and_enable_services w info svs s = (r, s') \<Longrightarrow> appends_only quiet s s'"
  unfolding connect_and_enable_services_def
  by (auto split: prod.splits sum.splits option.splits
      dest!: connect_ssh_appends enable_services_appends except_log_appends;
      blast intro: appends_only_trans appends_only_emit quiet_close)



lemma move_handle_appends:
  "MoveServicesStrategy_handle w cfg sv c s = (r, s') \<Longrightarrow> appends_only no_dispatch s s'"
  unfolding MoveServicesStrategy_handle_def Let_def send_message_def
  by (auto split: prod.splits sum.splits
      dest!: connect_and_disable_appends connect_and_enable_appends post_all_appends;
      blast intro: appends_only_trans appends_only_mono quiet_no_dispatch)

lemma handle2_appends:
  "handle2 w cfg h sv c s = (r, s') \<Longrightarrow> appends_only no_dispatch s s'"
  unfolding handle2_def NotifyFailureStrategy_handle_def
  by (auto split: strategy.splits dest!: move_handle_appends post_all_appends
      simp: appends_only_refl;
      blast intro: appends_only_trans appends_only_emit no_dispatch_enter)

lemma handle3_appends:
  "handle3 w cfg h sv c v s = (r, s') \<Longrightarrow> appends_only no_dispatch s s'"
  unfolding handle3_def NotifyWarningStrategy_handle_def
  by (auto split: strategy.splits dest!: post_all_appends simp: appends_only_refl;
      blast intro: appends_only_trans appends_only_emit no_dispatch_enter)

lemma handle_failure_appends:
  "handle_failure w cfg sv c t s = (r, s') \<Longrightarrow>
   appends_only no_dispatch (emit (Enter_handle_failure sv c t) s) s'"
  unfolding handle_failure_def Let_def
  by (auto split: option.splits sum.splits simp: appends_only_refl emit_def
      dest!: handle2_appends)

lemma handle_warning_appends:
  "handle_warning w cfg sv c v s = (r, s') \<Longrightarrow>
   appends_only no_dispatch (emit (Enter_handle_warning sv c v) s) s'"
  unfolding handle_warning_def by (auto dest!: handle3_appends)

lemma handle_failure_dispatches:
  assumes "handle_failure w cfg sv c t s = (r, s')"
  shows "dispatches s' = dispatches s @ [Enter_handle_failure sv c t]"
    and "aggregate_results s' = aggregate_results s"
  using no_dispatch_dispatches [OF handle_failure_appends [OF assms]]
    appends_only_fields(1) [OF handle_failure_appends [OF assms]]
  by (simp_all add: dispatches_emit)

lemma handle_warning_dispatches:
  assumes "handle_warning w cfg sv c v s = (r, s')"
  shows "dispatches s' = dispatches s @ [Enter_handle_warning sv c v]"
    and "aggregate_results s' = aggregate_results s"
  using no_dispatch_dispatches [OF handle_warning_appends [OF assms]]
    appends_only_fields(1) [OF handle_warning_appends [OF assms]]
  by (simp_all add: dispatches_emit)

lemma classify_effect:
  assumes "classify w cfg server chk result rt s = (r, s')"
  shows "aggregate_results s' = aggregate_results s"
    and "dispatches s' = dispatches s @
      (if \<not> str_in (c_type chk) ''cpu ram disk_space'' then
         (if \<not> result then [Enter_handle_failure (s_name server) (c_name chk) (c_type chk)]
          else if rt \<ge> response_time_limit cfg
            then [Enter_handle_warning (s_name server) (c_name chk) rt] else [])
       else (case map_of (resourse_limits cfg) (c_name chk) of
               None \<Rightarrow> []
             | Some limit \<Rightarrow>
                 if rt \<ge> limit then [Enter_handle_warning (s_name server) (c_name chk) rt]
                 else []))"
  using assms unfolding classify_def
  by (auto split: if_splits option.splits
      dest: handle_failure_dispatches handle_warning_dispatches)

subsection \<open>Probes and the recording of an outcome\<close>

lemma check_frame: "check w m s = (r, s1) \<Longrightarrow> probe_frame s s1"
  by (cases m)
     (auto simp: probe_frame_def escalations_def ServerPingMonitor_check_def
        TelnetMonitor_check_def ServiceMonitor_check_def tick_def emit_def
        split: prod.splits sum.splits option.splits)

lemma response_time_frame: "response_time w m s = (r, s1) \<Longrightarrow> probe_frame s s1"
  by (cases m)
     (auto simp: probe_frame_def escalations_def ServerPingMonitor_response_time_def
        TelnetMonitor_response_time_def ServiceMonitor_response_time_def
        CPUMonitor_response_time_def RAMMonitor_response_time_def
        DiskMonitor_response_time_def tick_def emit_def Let_def
        split: prod.splits sum.splits option.splits if_splits)

lemma probe_frame_dispatches: "probe_frame s s' \<Longrightarrow> dispatches s' = dispatches s"
  by (simp add: dispatches_escalations probe_frame_def)

lemma probe_frame_aggregate: "probe_frame s s' \<Longrightarrow> aggregate_results s' = aggregate_results s"
  by (simp add: probe_frame_def)

lemma count_entries_Cons:
  "count_entries (kv # agg) = length (entries_of (snd kv)) + count_entries agg"
  by (simp add: count_entries_def)

lemma count_entries_Nil: "count_entries [] = 0"
  by (simp add: count_entries_def)

lemma count_update_append:
  "map_of agg k = Some (Entries es) \<Longrightarrow>
   count_entries (AList.update k (Entries (es @ [e])) agg) = count_entries agg + 1"
  by (induction agg) (auto simp: count_entries_Cons count_entries_Nil)

lemma count_update_new:
  "map_of agg k = None \<Longrightarrow>
   count_entries (AList.update k (Entries []) agg) = count_entries agg"
  by (induction agg) (auto simp: count_entries_Cons count_entries_Nil)

lemma agg_append_count:
  "agg_append k e agg = Inr a \<Longrightarrow>
   count_entries a = count_entries agg + 1 \<and>
   (\<exists>es. map_of a k = Some (Entries (es @ [e])))"
  by (auto simp: agg_append_def update_conv' count_update_append
      split: option.splits aggval.splits)

lemma agg_create_count:
  "\<not> agg_contains agg k \<Longrightarrow> count_entries (agg_create k agg) = count_entries agg"
  by (simp add: agg_contains_def agg_create_def count_update_new)

lemma agg_append_after_create:
  "agg_append k e (agg_create k agg) \<noteq> Inl x"
  by (simp add: agg_append_def agg_create_def update_conv')

lemma log_result_ok:
  assumes "log_result w sv c r rt s = (None, s')"
  shows "count_entries (aggregate_results s') = count_entries (aggregate_results s) + 1"
    and "\<exists>es. map_of (aggregate_results s') sv =
           Some (Entries (es @ [\<lparr>e_check_name = c, e_result = success_text r,
                                  e_response_time = map_option (round3 w) rt\<rparr>]))"
    and "ServerLog sv (log_line w sv c r rt) \<in> set (trace s')"
    and "escalations s' = escalations s"
    and "snapshot_file s' = snapshot_file s"
    and "now s' = now s"
  using assms unfolding log_result_def Let_def
  by (auto split: if_splits option.splits sum.splits prod.splits
      simp: emit_def escalations_def agg_create_count dest!: agg_append_count)

lemma log_result_fail:
  assumes "log_result w sv c r rt s = (Some e, s')"
  shows "aggregate_results s' = aggregate_results s"
    and "escalations s' = escalations s"
  using assms unfolding log_result_def Let_def
  by (auto split: if_splits option.splits sum.splits prod.splits
      simp: emit_def escalations_def agg_append_after_create)

lemma log_result_returns:
  assumes "can_log w s sv"
  shows "\<exists>s'. log_result w sv c r rt s = (None, s')"
proof -
  from assms have ap: "appendable (aggregate_results s) sv"
    and lg: "sv \<in> set (loggers s) \<or> open_log w (''logs/'' @ sv @ ''_checks.log'') = None"
    by (simp_all add: can_log_def)
  have app: "\<exists>a. agg_append sv e
      (if \<not> agg_contains agg sv then agg_create sv agg else agg) = Inr a"
    if "appendable agg sv" for agg e
  proof (cases "map_of agg sv")
    case None
    then show ?thesis
      using agg_append_after_create [of sv e agg]
      by (cases "agg_append sv e (agg_create sv agg)") (auto simp: agg_contains_def)
  next
    case (Some v)
    with that show ?thesis
      by (cases v) (simp_all add: appendable_def agg_contains_def agg_append_def)
  qed
  from app [OF ap] obtain a where
    "agg_append sv \<lparr>e_check_name = c, e_result = success_text r,
        e_response_time = map_option (round3 w) rt\<rparr>
      (if \<not> agg_contains (aggregate_results s) sv then agg_create sv (aggregate_results s)
       else aggregate_results s) = Inr a"
    by blast
  then show ?thesis
    using lg unfolding log_result_def Let_def
    by (auto simp: emit_def split: option.splits if_splits)
qed

lemma can_log_probe: "probe_frame s s' \<Longrightarrow> can_log w s' sv = can_log w s sv"
  by (simp add: can_log_def probe_frame_def)

lemmas demo_defs = demo_env_def demo_config_def tg1_def tg2_def web1_def s_init_def
  ping_check_def bot_check_def cpu_check_def telnet_check_def telnet_no_port_def snmp_check_def

subsection \<open>C1: the classification policy\<close>

text \<open>Which strategy is invoked: the events \<open>Enter_handle\<close> that a call adds to the trace.\<close>

lemma invocations_escalations: "invocations s = filter is_handle (escalations s)"
proof -
  have "is_handle ev \<Longrightarrow> is_escalation ev" for ev by (cases ev) simp_all
  then have "filter is_handle (filter is_escalation xs) = filter is_handle xs" for xs
    by (induction xs) auto
  then show ?thesis by (simp add: invocations_def escalations_def)
qed

lemma invocations_emit:
  "invocations (emit ev s) = invocations s @ (if is_handle ev then [ev] else [])"
  by (simp add: invocations_def emit_def)

lemma in_handler_invocations:
  "appends_only in_handler s s' \<Longrightarrow> invocations s' = invocations s"
  using appends_only_filter [of in_handler s s' is_handle]
  by (simp add: invocations_def in_handler_def)

lemma quiet_in_handler: "quiet ev \<Longrightarrow> in_handler ev"
  by (simp add: quiet_def in_handler_def)

lemma post_all_in_handler:
  "post_all w m ids s = (r, s') \<Longrightarrow> appends_only in_handler s s'"
proof (induction ids arbitrary: s)
  case Nil
  then show ?case by (simp add: appends_only_refl)
next
  case (Cons a ids)
  show ?case
  proof (cases "requests_post w (now s) a m")
    case None
    with Cons.prems have "post_all w m ids (emit (Post a m) s) = (r, s')" by simp
    then have "appends_only in_handler (emit (Post a m) s) s'" by (rule Cons.IH)
    moreover have "appends_only in_handler s (emit (Post a m) s)"
      by (rule appends_only_emit) (simp add: in_handler_def)
    ultimately show ?thesis by (blast intro: appends_only_trans)
  next
    case (Some e)
    with Cons.prems show ?thesis by (simp add: appends_only_refl)
  qed
qed

lemma move_handle_in_handler:
  "MoveServicesStrategy_handle w cfg sv c s = (r, s') \<Longrightarrow> appends_only in_handler s s'"
  unfolding MoveServicesStrategy_handle_def Let_def send_message_def
  by (auto split: prod.splits sum.splits
      dest!: connect_and_disable_appends connect_and_enable_appends post_all_in_handler;
      blast intro: appends_only_trans appends_only_mono quiet_in_handler)

lemma handle2_invocations:
  assumes "handle2 w cfg h sv c s = (r, s')"
  shows "invocations s' =
    invocations s @ (if h = NotifyWarningStrategy then [] else [Enter_handle h sv c])"
proof (cases h)
  case NotifyFailureStrategy
  with assms have "appends_only in_handler (emit (Enter_handle h sv c) s) s'"
    by (auto simp: handle2_def NotifyFailureStrategy_handle_def dest: post_all_in_handler)
  from in_handler_invocations [OF this] NotifyFailureStrategy show ?thesis
    by (simp add: invocations_emit)
next
  case NotifyWarningStrategy
  with assms show ?thesis by (simp add: handle2_def)
next
  case MoveServicesStrategy
  with assms have "appends_only in_handler (emit (Enter_handle h sv c) s) s'"
    by (auto simp: handle2_def dest: move_handle_in_handler)
  from in_handler_invocations [OF this] MoveServicesStrategy show ?thesis
    by (simp add: invocations_emit)
qed

lemma handle3_invocations:
  assumes "handle3 w cfg h sv c v s = (r, s')"
  shows "invocations s' =
    invocations s @ (if h = NotifyWarningStrategy then [Enter_handle h sv c] else [])"
proof (cases h)
  case NotifyWarningStrategy
  with assms have "appends_only in_handler (emit (Enter_handle h sv c) s) s'"
    by (auto simp: handle3_def NotifyWarningStrategy_handle_def dest: post_all_in_handler)
  from in_handler_invocations [OF this] NotifyWarningStrategy show ?thesis
    by (simp add: invocations_emit)
next
  case NotifyFailureStrategy
  with assms show ?thesis by (simp add: handle3_def)
next
  case MoveServicesStrategy
  with assms show ?thesis by (simp add: handle3_def)
qed

lemma snapshot_file_emit: "snapshot_file (emit ev s) = snapshot_file s"
  by (simp add: emit_def)

lemma handle_failure_invocations:
  assumes "handle_failure w cfg sv c t s = (r, s')"
  shows "invocations s' = invocations s @
    (case snapshot_file s of
       None \<Rightarrow> []
     | Some content \<Rightarrow>
         (case json_load w content of
            Inl e \<Rightarrow> []
          | Inr data \<Rightarrow>
              if data = PyStr ''warning'' then []
              else [Enter_handle
                      (if sv = ''TG1'' then MoveServicesStrategy else NotifyFailureStrategy)
                      sv c]))"
  using assms unfolding handle_failure_def Let_def
  by (auto split: option.splits sum.splits
      simp: invocations_emit get_strategy_def snapshot_file_emit dest!: handle2_invocations)

lemma handle_warning_invocations:
  assumes "handle_warning w cfg sv c v s = (r, s')"
  shows "invocations s' = invocations s @ [Enter_handle NotifyWarningStrategy sv c]"
  using assms unfolding handle_warning_def
  by (auto simp: invocations_emit get_strategy_def dest!: handle3_invocations)

lemma classify_invocations:
  assumes "classify w cfg server chk result rt s = (r, s')"
  shows "invocations s' = invocations s @
      (if \<not> str_in (c_type chk) ''cpu ram disk_space'' then
         (if \<not> result then
            (case snapshot_file s of
               None \<Rightarrow> []
             | Some content \<Rightarrow>
                 (case json_load w content of
                    Inl e \<Rightarrow> []
                  | Inr data \<Rightarrow>
                      if data = PyStr ''warning'' then []
                      else [Enter_handle
                              (if s_name server = ''TG1'' then MoveServicesStrategy
                               else NotifyFailureStrategy)
                              (s_name server) (c_name chk)]))
          else if rt \<ge> response_time_limit cfg
            then [Enter_handle NotifyWarningStrategy (s_name server) (c_name chk)] else [])
       else (case map_of (resourse_limits cfg) (c_name chk) of
               None \<Rightarrow> []
             | Some limit \<Rightarrow>
                 if rt \<ge> limit
                 then [Enter_handle NotifyWarningStrategy (s_name server) (c_name chk)]
                 else []))"
proof (cases "str_in (c_type chk) ''cpu ram disk_space''")
  case True
  with assms show ?thesis
    unfolding classify_def
    by (auto split: option.splits if_splits dest: handle_warning_invocations)
next
  case False
  show ?thesis
  proof (cases result)
    case True
    with assms False show ?thesis
      unfolding classify_def by (auto split: if_splits dest: handle_warning_invocations)
  next
    case r: False
    with assms False have "handle_failure w cfg (s_name server) (c_name chk) (c_type chk) s = (r, s')"
      by (simp add: classify_def)
    from handle_failure_invocations [OF this] False r show ?thesis by simp
  qed
qed

text \<open>
  Claim C1, amended. Take an execution of a pair with a recognized type in which the monitor
  is constructed, \<^verbatim>\<open>check()\<close> returns \<open>r\<close>, \<^verbatim>\<open>response_time()\<close> returns \<open>t\<close> and
  the outcome can be logged. For the types ping, telnet and service, \<^verbatim>\<open>handle_failure\<close>
  is called exactly when \<open>r\<close> is false, and it selects and invokes a strategy exactly when
  moreover the snapshot file can be opened and decodes to a value other than the string
  \<^verbatim>\<open>'warning'\<close>: Migrate-Services for TG1, Notify-Failure for any other server.
  \<^verbatim>\<open>handle_warning\<close> is called, and the Notify-Warning strategy invoked, exactly when \<open>r\<close>
  is true and \<open>t\<close> is at least \<^verbatim>\<open>response_time_limit\<close>. For the types cpu, ram and
  disk_space, \<open>r\<close> is true, \<^verbatim>\<open>handle_failure\<close> is not called, and \<^verbatim>\<open>handle_warning\<close>
  is called, and the Notify-Warning strategy invoked, exactly when \<open>t\<close> is at least
  \<^verbatim>\<open>resourse_limits[check name]\<close>. Nothing else is dispatched or invoked.
\<close>

theorem classification_and_invocation:
  assumes "select_monitor server chk = Inr (Some m)"
      and "check w m s = (Inr r, s1)"
      and "response_time w m s1 = (Inr t, s2)"
      and "can_log w s (s_name server)"
  shows "(c_type chk \<in> {''ping'', ''telnet'', ''service''} \<longrightarrow>
            dispatches (run_check w cfg server chk s) = dispatches s @
              (if \<not> r then [Enter_handle_failure (s_name server) (c_name chk) (c_type chk)]
               else if t \<ge> response_time_limit cfg
                 then [Enter_handle_warning (s_name server) (c_name chk) t]
               else []) \<and>
            invocations (run_check w cfg server chk s) = invocations s @
              (if \<not> r then
                 (case snapshot_file s of
                    None \<Rightarrow> []
                  | Some content \<Rightarrow>
                      (case json_load w content of
                         Inl e \<Rightarrow> []
                       | Inr data \<Rightarrow>
                           if data = PyStr ''warning'' then []
                           else [Enter_handle
                                   (if s_name server = ''TG1'' then MoveServicesStrategy
                                    else NotifyFailureStrategy)
                                   (s_name server) (c_name chk)]))
               else if t \<ge> response_time_limit cfg
                 then [Enter_handle NotifyWarningStrategy (s_name server) (c_name chk)]
               else [])) \<and>
         (c_type chk \<in> {''cpu'', ''ram'', ''disk_space''} \<longrightarrow>
            r \<and>
            dispatches (run_check w cfg server chk s) = dispatches s @
              (case map_of (resourse_limits cfg) (c_name chk) of
                 Some limit \<Rightarrow>
                   if t \<ge> limit then [Enter_handle_warning (s_name server) (c_name chk) t]
                   else []
               | None \<Rightarrow> []) \<and>
            invocations (run_check w cfg server chk s) = invocations s @
              (case map_of (resourse_limits cfg) (c_name chk) of
                 Some limit \<Rightarrow>
                   if t \<ge> limit
                   then [Enter_handle NotifyWarningStrategy (s_name server) (c_name chk)]
                   else []
               | None \<Rightarrow> []))"
proof -
  note f1 = check_frame [OF assms(2)]
  note f2 = response_time_frame [OF assms(3)]
  have "can_log w s2 (s_name server)"
    using assms(4) can_log_probe [OF f1] can_log_probe [OF f2] by simp
  then obtain s3 where
    l: "log_result w (s_name server) (c_name chk) r (Some t) s2 = (None, s3)"
    using log_result_returns by blast
  obtain x s' where c: "classify w cfg server chk r t s3 = (x, s')"
    by (cases "classify w cfg server chk r t s3")
  have e3: "escalations s3 = escalations s"
    using f1 f2 log_result_ok(4) [OF l] by (simp add: probe_frame_def)
  have d3: "dispatches s3 = dispatches s"
    using e3 by (simp add: dispatches_escalations)
  have i3: "invocations s3 = invocations s"
    using e3 by (simp add: invocations_escalations)
  have sf: "snapshot_file s3 = snapshot_file s"
    using f1 f2 log_result_ok(5) [OF l] by (simp add: probe_frame_def)
  have run: "dispatches (run_check w cfg server chk s) = dispatches s'"
      "invocations (run_check w cfg server chk s) = invocations s'"
    using assms(1-3) l c
    by (cases x; simp add: run_check_def run_check_try_def invocations_emit)+
  note effd = classify_effect(2) [OF c]
  note effi = classify_invocations [OF c]
  have res: "c_type chk \<in> {''cpu'', ''ram'', ''disk_space''} \<Longrightarrow> r"
    using assms(1,2)
    by (auto simp: select_monitor_def Let_def split: if_splits option.splits)
  have non: "c_type chk \<in> {''ping'', ''telnet'', ''service''} \<Longrightarrow>
      \<not> str_in (c_type chk) ''cpu ram disk_space''"
    by (auto simp: str_in_types)
  have yes: "c_type chk \<in> {''cpu'', ''ram'', ''disk_space''} \<Longrightarrow>
      str_in (c_type chk) ''cpu ram disk_space''"
    by (auto simp: str_in_types)
  show ?thesis
  proof (intro conjI impI)
    assume a: "c_type chk \<in> {''ping'', ''telnet'', ''service''}"
    show "dispatches (run_check w cfg server chk s) = dispatches s @
              (if \<not> r then [Enter_handle_failure (s_name server) (c_name chk) (c_type chk)]
               else if t \<ge> response_time_limit cfg
                 then [Enter_handle_warning (s_name server) (c_name chk) t]
               else [])"
      using run(1) effd d3 non [OF a] by simp
    show "invocations (run_check w cfg server chk s) = invocations s @
              (if \<not> r then
                 (case snapshot_file s of
                    None \<Rightarrow> []
                  | Some content \<Rightarrow>
                      (case json_load w content of
                         Inl e \<Rightarrow> []
                       | Inr data \<Rightarrow>
                           if data = PyStr ''warning'' then []
                           else [Enter_handle
                                   (if s_name server = ''TG1'' then MoveServicesStrategy
                                    else NotifyFailureStrategy)
                                   (s_name server) (c_name chk)]))
               else if t \<ge> response_time_limit cfg
                 then [Enter_handle NotifyWarningStrategy (s_name server) (c_name chk)]
               else [])"
      using run(2) effi i3 sf non [OF a] by simp
  next
    assume a: "c_type chk \<in> {''cpu'', ''ram'', ''disk_space''}"
    show r by (rule res [OF a])
    show "dispatches (run_check w cfg server chk s) = dispatches s @
              (case map_of (resourse_limits cfg) (c_name chk) of
                 Some limit \<Rightarrow>
                   if t \<ge> limit then [Enter_handle_warning (s_name server) (c_name chk) t]
                   else []
               | None \<Rightarrow> [])"
      using run(1) effd d3 yes [OF a] by (simp split: option.splits)
    show "invocations (run_check w cfg server chk s) = invocations s @
              (case map_of (resourse_limits cfg) (c_name chk) of
                 Some limit \<Rightarrow>
                   if t \<ge> limit
                   then [Enter_handle NotifyWarningStrategy (s_name server) (c_name chk)]
                   else []
               | None \<Rightarrow> [])"
      using run(2) effi i3 yes [OF a] by (simp split: option.splits)
  qed
qed

text \<open>C1, amended, at two executions. After a first flush, the ping of TG1 that gets no
  answer is dispatched as a failure and the Migrate-Services strategy is invoked. The CPU check
  of WEB1 at 87.5 percent, over its limit of 80, is dispatched as a warning and the
  Notify-Warning strategy is invoked.\<close>

theorem classification_and_invocation_witness:
  "dispatches (run_check demo_env demo_config tg1 ping_check
       (save_aggregate_results demo_env s_init)) =
     [Enter_handle_failure ''TG1'' ''Ping'' ''ping''] \<and>
   invocations (run_check demo_env demo_config tg1 ping_check
       (save_aggregate_results demo_env s_init)) =
     [Enter_handle MoveServicesStrategy ''TG1'' ''Ping''] \<and>
   dispatches (run_check demo_env demo_config web1 cpu_check s_init) =
     [Enter_handle_warning ''WEB1'' ''CPU'' 87.5] \<and>
   invocations (run_check demo_env demo_config web1 cpu_check s_init) =
     [Enter_handle NotifyWarningStrategy ''WEB1'' ''CPU'']"
proof -
  let ?s = "save_aggregate_results demo_env s_init"
  have s: "?s = \<lparr>aggregate_results = [(''last-check-time'', Stamp ''2024'')], threads = [],
      loggers = ['''', ''root''], snapshot_file = Some ''{}'', now = 0, trace = [Flush]\<rparr>"
    by (simp add: save_aggregate_results_def save_write_def save_open_def emit_def demo_defs)
  have a1: "select_monitor tg1 ping_check = Inr (Some (ServerPingMonitor (Some ''10.0.0.1'')))"
    by (simp add: select_monitor_def demo_defs)
  have a2: "check demo_env (ServerPingMonitor (Some ''10.0.0.1'')) ?s = (Inr False, tick 1 ?s)"
    by (simp add: ServerPingMonitor_check_def demo_defs)
  have a3: "response_time demo_env (ServerPingMonitor (Some ''10.0.0.1'')) (tick 1 ?s) =
      (Inr (- 1), tick 1 (tick 1 ?s))"
    by (simp add: ServerPingMonitor_response_time_def demo_defs startswith_def tick_def)
  have a4: "can_log demo_env ?s (s_name tg1)"
    unfolding s by (simp add: can_log_def appendable_def demo_defs)
  have j: "json_load demo_env ''{}'' = Inr (PyDict [])"
    by (simp add: json_load_def json_ws_def demo_env_def)
  have b1: "select_monitor web1 cpu_check = Inr (Some CPUMonitor)"
    by (simp add: select_monitor_def demo_defs)
  have b2: "check demo_env CPUMonitor s_init = (Inr True, s_init)"
    by simp
  have b3: "response_time demo_env CPUMonitor s_init = (Inr 87.5, s_init)"
    by (simp add: CPUMonitor_response_time_def demo_defs)
  have b4: "can_log demo_env s_init (s_name web1)"
    by (simp add: can_log_def appendable_def demo_defs)
  have t: "c_type ping_check = ''ping''" "c_type cpu_check = ''cpu''"
      "s_name tg1 = ''TG1''" "s_name web1 = ''WEB1''" "c_name ping_check = ''Ping''"
      "c_name cpu_check = ''CPU''" "resourse_limits demo_config = [(''CPU'', 80)]"
    by (simp_all add: demo_defs)
  have z: "dispatches ?s = []" "invocations ?s = []" "snapshot_file ?s = Some ''{}''"
      "dispatches s_init = []" "invocations s_init = []"
    unfolding s by (simp_all add: dispatches_def invocations_def s_init_def)
  show ?thesis
    using classification_and_invocation [OF a1 a2 a3 a4, of demo_config]
      classification_and_invocation [OF b1 b2 b3 b4, of demo_config]
    by (simp add: t z j)
qed

text \<open>C1 as it was stated fails. In the first round there is no snapshot file: the ping of TG1
  returns false, and no strategy is selected or invoked and no alert is posted. And where the
  log file of the server cannot be opened, the ping returns false and nothing is dispatched at
  all.\<close>

theorem failure_without_escalation:
  "select_monitor tg1 ping_check = Inr (Some (ServerPingMonitor (Some ''10.0.0.1''))) \<and>
   fst (check demo_env (ServerPingMonitor (Some ''10.0.0.1'')) s_init) = Inr False \<and>
   invocations (run_check demo_env demo_config tg1 ping_check s_init) = [] \<and>
   posts (run_check demo_env demo_config tg1 ping_check s_init) = [] \<and>
   fst (check no_logs_env (ServerPingMonitor (Some ''10.0.0.1'')) s_init) = Inr False \<and>
   escalations (run_check no_logs_env demo_config tg1 ping_check s_init) = []"
  by (simp add: run_check_def run_check_try_def select_monitor_def ServerPingMonitor_check_def
      ServerPingMonitor_response_time_def log_result_def classify_def handle_failure_def
      str_in_types startswith_def tick_def emit_def agg_contains_def agg_create_def
      agg_append_def Let_def invocations_def posts_def escalations_def no_logs_env_def
      demo_defs)

subsection \<open>C2: the round loop\<close>

text \<open>With a pair to run, the first call of the thread constructor ends \<^verbatim>\<open>start\<close>.\<close>

lemma start_stops_at_first_thread:
  "pairs cfg \<noteq> [] \<Longrightarrow> start w cfg (Suc n) s = (Some (NameError thread_ctor), s)"
  by (cases "pairs cfg") (simp_all add: round_body_def call_thread_ctor_def
      thread_ctor_def main_globals_def)

text \<open>
  Claim C2 says that every round launches one worker per pair, joins them all, flushes and
  then sleeps. The code does not get that far: \<^verbatim>\<open>start\<close> calls a name that is not bound,
  spelled with a Cyrillic letter in place of the imported \<^verbatim>\<open>Thread\<close>, so with the
  example configuration the first round raises \<^verbatim>\<open>NameError\<close> before any thread exists:
  nothing is launched, joined, flushed or slept, and the state is the initial one.
\<close>

theorem start_raises_name_error:
  "start demo_env demo_config 1 s_init = (Some (NameError thread_ctor), s_init)"
  by (simp add: round_body_def pairs_def demo_config_def tg1_def call_thread_ctor_def
      thread_ctor_def main_globals_def)

subsection \<open>C3: the flush\<close>

text \<open>
  Claim C3, amended. The flush has no temporary path and no rename: it truncates the snapshot
  file in place and then writes the serialised aggregate into it. A reader that reads between
  the two steps gets a JSON decoding error. Once the flush has finished, the file holds the
  serialised aggregate with its time stamp.
\<close>

theorem flush_in_place:
  "snapshot_file (save_open w s) = Some [] \<and>
   read_results w (save_open w s) = Inl JSONDecodeError \<and>
   snapshot_file (save_aggregate_results w s) =
     Some (json_dumps w (AList.update ''last-check-time'' (Stamp (strftime w (now s)))
             (aggregate_results s)))"
  by (simp add: save_open_def save_aggregate_results_def save_write_def read_results_def
      json_load_def emit_def)

text \<open>C3 as it was stated fails: after a first flush the reader gets the document, and during
  the second flush it gets a decoding error.\<close>

theorem reader_sees_truncated_file:
  "read_results demo_env (save_aggregate_results demo_env s_init) = Inr (PyDict []) \<and>
   read_results demo_env (save_open demo_env (save_aggregate_results demo_env s_init)) =
     Inl JSONDecodeError"
  by (simp add: save_open_def save_aggregate_results_def save_write_def read_results_def
      json_load_def emit_def demo_env_def json_ws_def)

subsection \<open>C4: the Migrate-Services handler\<close>




text \<open>The amended claim is silent on a configuration without TG2. There the handler raises as
  well: \<^verbatim>\<open>server_info\<close> is \<^verbatim>\<open>None\<close>, and the \<^verbatim>\<open>except\<close> clauses that print
  \<^verbatim>\<open>server_info['name']\<close> raise \<^verbatim>\<open>TypeError\<close> themselves.\<close>

lemma move_services_without_tg2:
  "fst (MoveServicesStrategy_handle demo_env (demo_config\<lparr>servers := [tg1]\<rparr>)
          ''TG1'' ''Ping'' s_init) = Some TypeError \<and>
   posts (snd (MoveServicesStrategy_handle demo_env (demo_config\<lparr>servers := [tg1]\<rparr>)
          ''TG1'' ''Ping'' s_init)) = []"
  by (simp add: MoveServicesStrategy_handle_def demo_env_def demo_config_def
      tg1_def s_init_def connect_and_disable_services_def
      connect_and_enable_services_def connect_ssh_def disable_services_def manage_service_def
      log_peer_def except_log_def emit_def posts_def Let_def bot_check_def ping_check_def)

subsection \<open>C5: the selection of the strategy\<close>

text \<open>
  Claim C5. \<^verbatim>\<open>get_strategy\<close> returns the Notify-Warning strategy when its third argument
  equals \<^verbatim>\<open>'warning'\<close>, whatever the server name; otherwise the Migrate-Services strategy
  when the server name equals \<^verbatim>\<open>"TG1"\<close>; otherwise the Notify-Failure strategy.
\<close>

theorem get_strategy_selection:
  "(severity = PyStr ''warning'' \<longrightarrow>
      get_strategy server_name check_type severity = NotifyWarningStrategy) \<and>
   (severity \<noteq> PyStr ''warning'' \<and> server_name = ''TG1'' \<longrightarrow>
      get_strategy server_name check_type severity = MoveServicesStrategy) \<and>
   (severity \<noteq> PyStr ''warning'' \<and> server_name \<noteq> ''TG1'' \<longrightarrow>
      get_strategy server_name check_type severity = NotifyFailureStrategy)"
  by (simp add: get_strategy_def)

text \<open>C5 at three calls, one for each strategy.\<close>

theorem get_strategy_selection_witness:
  "get_strategy ''TG1'' ''CPU'' (PyStr ''warning'') = NotifyWarningStrategy \<and>
   get_strategy ''TG1'' ''ping'' (PyDict []) = MoveServicesStrategy \<and>
   get_strategy ''WEB1'' ''ping'' (PyDict []) = NotifyFailureStrategy"
  using get_strategy_selection [of "PyStr ''warning''" "''TG1''" "''CPU''"]
    get_strategy_selection [of "PyDict []" "''TG1''" "''ping''"]
    get_strategy_selection [of "PyDict []" "''WEB1''" "''ping''"]
  by simp

subsection \<open>C6: the number of entries of a round\<close>

lemma run_check_unrecognized: "\<not> recognized chk \<Longrightarrow> run_check w cfg server chk s = s"
  by (simp add: recognized_def run_check_def run_check_try_def select_monitor_def Let_def)

lemma recorded_recognized: "recorded w server chk s \<Longrightarrow> recognized chk"
  by (auto simp: recorded_def recognized_def select_monitor_def Let_def
      split: sum.splits option.splits if_splits)

lemma run_check_count:
  "count_entries (aggregate_results (run_check w cfg server chk s)) =
   count_entries (aggregate_results s) + (if recorded w server chk s then 1 else 0)"
proof (cases "select_monitor server chk")
  case (Inl e)
  then show ?thesis by (simp add: run_check_def run_check_try_def recorded_def)
next
  case (Inr mo)
  show ?thesis
  proof (cases mo)
    case None
    with Inr show ?thesis by (simp add: run_check_def run_check_try_def recorded_def)
  next
    case (Some m)
    obtain a s1 where c: "check w m s = (a, s1)" by (cases "check w m s")
    note f1 = probe_frame_aggregate [OF check_frame [OF c]]
    show ?thesis
    proof (cases a)
      case (Inl e)
      with Inr Some c f1 show ?thesis
        by (simp add: run_check_def run_check_try_def recorded_def)
    next
      case r: (Inr r)
      obtain b s2 where rt: "response_time w m s1 = (b, s2)"
        by (cases "response_time w m s1")
      note f2 = probe_frame_aggregate [OF response_time_frame [OF rt]]
      show ?thesis
      proof (cases b)
        case (Inl e)
        with Inr Some c r rt f1 f2 show ?thesis
          by (simp add: run_check_def run_check_try_def recorded_def)
      next
        case t: (Inr t)
        obtain x s3 where l: "log_result w (s_name server) (c_name chk) r (Some t) s2 = (x, s3)"
          by (cases "log_result w (s_name server) (c_name chk) r (Some t) s2")
        show ?thesis
        proof (cases x)
          case None
          obtain y s4 where cl: "classify w cfg server chk r t s3 = (y, s4)"
            by (cases "classify w cfg server chk r t s3")
          have "aggregate_results s4 = aggregate_results s3" by (rule classify_effect(1) [OF cl])
          moreover have "count_entries (aggregate_results s3) =
              count_entries (aggregate_results s2) + 1"
            using log_result_ok(1) l None by simp
          ultimately show ?thesis
            using Inr Some c r rt t l None cl f1 f2
            by (cases y) (simp_all add: run_check_def run_check_try_def recorded_def)
        next
          case (Some e)
          have "aggregate_results s3 = aggregate_results s2"
            using log_result_fail(1) l Some by simp
          then show ?thesis
            using Inr \<open>mo = Some m\<close> c r rt t l Some f1 f2
            by (simp add: run_check_def run_check_try_def recorded_def)
        qed
      qed
    qed
  qed
qed

lemma completed_le:
  "completed w cfg ps s \<le> length (filter (\<lambda>p. recognized (snd p)) ps)"
  by (induction ps arbitrary: s) (auto dest: recorded_recognized simp: le_SucI)

lemma run_workers_count:
  "count_entries (aggregate_results (run_workers w cfg ps s)) =
   count_entries (aggregate_results s) + completed w cfg ps s"
  by (induction ps arbitrary: s) (simp_all add: run_check_count)

text \<open>
  Claim C6, amended. When the workers of a round run one after the other, the number of
  entries appended equals the number of pairs that record their outcome: pairs of a recognized
  type whose monitor is constructed, whose two probes return and whose \<^verbatim>\<open>log_result\<close>
  returns. Each of them appends one entry; a recognized pair that raises before the append
  adds none, so the number is at most the number of recognized pairs. A pair with an
  unrecognized type changes nothing: no entry and no escalation.
\<close>

theorem round_entry_count:
  "count_entries (aggregate_results (run_workers w cfg ps s)) =
     count_entries (aggregate_results s) + completed w cfg ps s \<and>
   completed w cfg ps s \<le> length (filter (\<lambda>p. recognized (snd p)) ps) \<and>
   (\<not> recognized chk \<longrightarrow> run_check w cfg server chk s = s)"
  by (simp add: run_workers_count completed_le run_check_unrecognized)

text \<open>C6 on three pairs, one of them of an unrecognized type.\<close>

theorem round_entry_count_witness:
  "count_entries (aggregate_results (run_workers demo_env demo_config
       [(tg1, ping_check), (web1, snmp_check), (web1, telnet_check)] s_init)) = 2 \<and>
   completed demo_env demo_config
       [(tg1, ping_check), (web1, snmp_check), (web1, telnet_check)] s_init = 2 \<and>
   \<not> recognized snmp_check \<and>
   run_check demo_env demo_config web1 snmp_check s_init = s_init"
proof -
  have c: "completed demo_env demo_config
       [(tg1, ping_check), (web1, snmp_check), (web1, telnet_check)] s_init = 2"
    by (simp add: recorded_def select_monitor_def run_check_def run_check_try_def
        ServerPingMonitor_check_def ServerPingMonitor_response_time_def
        TelnetMonitor_check_def TelnetMonitor_response_time_def log_result_def classify_def
        handle_failure_def str_in_types startswith_def tick_def emit_def agg_contains_def
        agg_create_def agg_append_def Let_def demo_defs)
  have r: "\<not> recognized snmp_check"
    by (simp add: recognized_def snmp_check_def)
  have a: "count_entries (aggregate_results s_init) = 0"
    by (simp add: count_entries_def s_init_def)
  show ?thesis
    using round_entry_count [of demo_env demo_config
        "[(tg1, ping_check), (web1, snmp_check), (web1, telnet_check)]" s_init snmp_check web1]
      c r a
    by simp
qed

text \<open>C6 as it was stated fails: a telnet check without a port, and a ping check on a machine
  without the \<^verbatim>\<open>ping\<close> program, are pairs of a recognized type that append no entry.\<close>

theorem recognized_pair_not_recorded:
  "length (filter (\<lambda>p. recognized (snd p)) [(web1, telnet_no_port)]) = 1 \<and>
   count_entries (aggregate_results
     (run_workers demo_env demo_config [(web1, telnet_no_port)] s_init)) = 0 \<and>
   length (filter (\<lambda>p. recognized (snd p)) [(tg1, ping_check)]) = 1 \<and>
   count_entries (aggregate_results
     (run_workers no_ping_env demo_config [(tg1, ping_check)] s_init)) = 0"
  by (simp add: recognized_def run_check_def run_check_try_def select_monitor_def
      ServerPingMonitor_check_def no_ping_env_def count_entries_def emit_def tick_def demo_defs)

subsection \<open>C7: the response time of a port check\<close>

text \<open>
  Claim C7. \<^verbatim>\<open>TelnetMonitor.response_time\<close> returns the time that its connection attempt
  took, whether the attempt connected or raised, and the clock has advanced by that much; there
  is no sentinel. \<^verbatim>\<open>TelnetMonitor.check\<close> returns true exactly when its attempt connects.
  So an attempt that runs into the timeout after ten seconds gives a failure and a response
  time of ten seconds.
\<close>

theorem telnet_response_time_is_elapsed:
  assumes "telnet_open w (now s) host port = (d, outcome)"
  shows "fst (TelnetMonitor_response_time w host port s) = Inr d \<and>
         now (snd (TelnetMonitor_response_time w host port s)) = now s + d \<and>
         fst (TelnetMonitor_check w host port s) = Inr (outcome = None)"
  using assms
  by (cases outcome) (simp_all add: TelnetMonitor_response_time_def TelnetMonitor_check_def
      tick_def emit_def Let_def)

text \<open>C7 at a port whose connection attempt times out after ten seconds.\<close>

theorem telnet_response_time_is_elapsed_witness:
  "telnet_open demo_env (now s_init) (Some ''10.0.0.5'') 23 =
     (10, Some (LibraryError ''timed out'')) \<and>
   fst (TelnetMonitor_response_time demo_env (Some ''10.0.0.5'') 23 s_init) = Inr 10 \<and>
   now (snd (TelnetMonitor_response_time demo_env (Some ''10.0.0.5'') 23 s_init)) = 10 \<and>
   fst (TelnetMonitor_check demo_env (Some ''10.0.0.5'') 23 s_init) = Inr False"
proof -
  have h: "telnet_open demo_env (now s_init) (Some ''10.0.0.5'') 23 =
      (10, Some (LibraryError ''timed out''))"
    by (simp add: demo_env_def)
  show ?thesis
    using telnet_response_time_is_elapsed [OF h] h by (simp add: s_init_def)
qed

subsection \<open>C8: the failure path and the persisted snapshot\<close>

text \<open>
  Claim C8. \<^verbatim>\<open>get_strategy\<close> is a function of its three arguments and touches no state. On
  the failure path its third argument is the decoded snapshot file. A persisted snapshot is a
  JSON object, so it decodes to a dictionary, which never equals \<^verbatim>\<open>'warning'\<close>: the
  strategy that \<^verbatim>\<open>handle_failure\<close> calls is Migrate-Services for the server TG1 and
  Notify-Failure for any other server, whatever the snapshot holds.
\<close>

theorem failure_strategy_ignores_snapshot:
  assumes "snapshot_file s = Some content"
      and "json_load w content = Inr (PyDict d)"
  shows "get_strategy server_name check_type (PyDict d) =
           (if server_name = ''TG1'' then MoveServicesStrategy else NotifyFailureStrategy) \<and>
         handle_failure w cfg server_name check_name check_type s =
           handle2 w cfg
             (if server_name = ''TG1'' then MoveServicesStrategy else NotifyFailureStrategy)
             server_name check_name
             (emit (Enter_handle_failure server_name check_name check_type) s)"
  using assms by (simp add: handle_failure_def get_strategy_def emit_def)

text \<open>C8 at the snapshot that the first flush wrote.\<close>

theorem failure_strategy_ignores_snapshot_witness:
  "snapshot_file (save_aggregate_results demo_env s_init) = Some ''{}'' \<and>
   json_load demo_env ''{}'' = Inr (PyDict []) \<and>
   get_strategy ''TG1'' ''ping'' (PyDict []) = MoveServicesStrategy \<and>
   handle_failure demo_env demo_config ''TG1'' ''Ping'' ''ping''
       (save_aggregate_results demo_env s_init) =
     handle2 demo_env demo_config MoveServicesStrategy ''TG1'' ''Ping''
       (emit (Enter_handle_failure ''TG1'' ''Ping'' ''ping'')
          (save_aggregate_results demo_env s_init))"
proof -
  have h1: "snapshot_file (save_aggregate_results demo_env s_init) = Some ''{}''"
    by (simp add: save_aggregate_results_def save_write_def save_open_def emit_def demo_env_def)
  have h2: "json_load demo_env ''{}'' = Inr (PyDict [])"
    by (simp add: json_load_def json_ws_def demo_env_def)
  show ?thesis
    using failure_strategy_ignores_snapshot [OF h1 h2, of "''TG1''" "''ping''" demo_config "''Ping''"]
      h1 h2
    by simp
qed

subsection \<open>C9: appends of concurrent workers\<close>

lemma appendable_create: "appendable (agg_create k agg) k' = (k' = k \<or> appendable agg k')"
  by (auto simp: appendable_def agg_create_def update_conv' split: option.splits aggval.splits)

lemma appendable_append:
  assumes "agg_append k e agg = Inr a"
  shows "appendable a k' = appendable agg k'"
proof -
  from assms obtain es where m: "map_of agg k = Some (Entries es)"
    and a: "a = AList.update k (Entries (es @ [e])) agg"
    by (auto simp: agg_append_def split: option.splits aggval.splits)
  show ?thesis by (cases "k' = k") (simp_all add: appendable_def a update_conv' m)
qed

lemma three_steps:
  assumes "w_pc wk = At_test" and "appendable agg (w_server wk)"
  shows "\<exists>agg'. worker_step (fst (worker_step (fst (worker_step wk agg)) (snd (worker_step wk agg))))
             (snd (worker_step (fst (worker_step wk agg)) (snd (worker_step wk agg)))) =
           (wk\<lparr>w_pc := Finished\<rparr>, agg') \<and>
         count_entries agg' = count_entries agg + 1 \<and>
         (\<forall>k. appendable agg k \<longrightarrow> appendable agg' k)"
proof (cases "map_of agg (w_server wk)")
  case None
  then have nc: "\<not> agg_contains agg (w_server wk)" by (simp add: agg_contains_def)
  obtain a where a: "agg_append (w_server wk) (w_entry wk) (agg_create (w_server wk) agg) = Inr a"
    using agg_append_after_create [of "w_server wk" "w_entry wk" agg]
    by (cases "agg_append (w_server wk) (w_entry wk) (agg_create (w_server wk) agg)") auto
  have "count_entries a = count_entries agg + 1"
    using agg_append_count [OF a] agg_create_count [OF nc] by simp
  moreover have "\<forall>k. appendable agg k \<longrightarrow> appendable a k"
    using appendable_append [OF a] by (simp add: appendable_create)
  ultimately show ?thesis
    using assms(1) nc a by (simp add: worker_step_def)
next
  case (Some v)
  then obtain es where es: "v = Entries es"
    using assms(2) by (cases v) (simp_all add: appendable_def)
  have c: "agg_contains agg (w_server wk)" using Some by (simp add: agg_contains_def)
  have a: "agg_append (w_server wk) (w_entry wk) agg =
      Inr (AList.update (w_server wk) (Entries (es @ [w_entry wk])) agg)"
    using Some es by (simp add: agg_append_def)
  show ?thesis
    using assms(1) c a agg_append_count [OF a] appendable_append [OF a]
    by (simp add: worker_step_def)
qed

lemma run_schedule_block:
  assumes "i < length wks"
  shows "run_schedule (i # i # i # sched) wks agg =
     run_schedule sched
       (wks[i := fst (worker_step (fst (worker_step (fst (worker_step (wks ! i) agg))
             (snd (worker_step (wks ! i) agg))))
             (snd (worker_step (fst (worker_step (wks ! i) agg)) (snd (worker_step (wks ! i) agg)))))])
       (snd (worker_step (fst (worker_step (fst (worker_step (wks ! i) agg))
             (snd (worker_step (wks ! i) agg))))
             (snd (worker_step (fst (worker_step (wks ! i) agg)) (snd (worker_step (wks ! i) agg))))))"
  using assms by (simp add: split_beta)

lemma serial_from_step:
  "k < n \<Longrightarrow> serial_from k n = k # k # k # serial_from (Suc k) n"
  by (simp add: serial_from_def upt_conv_Cons)

lemma serial_from_count:
  "k \<le> length wks \<Longrightarrow>
   (\<forall>i. k \<le> i \<and> i < length wks \<longrightarrow>
      w_pc (wks ! i) = At_test \<and> appendable agg (w_server (wks ! i))) \<Longrightarrow>
   count_entries (snd (run_schedule (serial_from k (length wks)) wks agg)) =
     count_entries agg + (length wks - k)"
proof (induction "length wks - k" arbitrary: k wks agg)
  case 0
  then have "k = length wks" by simp
  then show ?case by (simp add: serial_from_def)
next
  case (Suc n)
  then have lt: "k < length wks" by simp
  have pc: "w_pc (wks ! k) = At_test" and ap: "appendable agg (w_server (wks ! k))"
    using Suc.prems(2) lt by auto
  from three_steps [OF pc ap] obtain agg' where
    st: "worker_step (fst (worker_step (fst (worker_step (wks ! k) agg))
             (snd (worker_step (wks ! k) agg))))
             (snd (worker_step (fst (worker_step (wks ! k) agg)) (snd (worker_step (wks ! k) agg)))) =
           ((wks ! k)\<lparr>w_pc := Finished\<rparr>, agg')"
    and cnt: "count_entries agg' = count_entries agg + 1"
    and keep: "\<forall>k. appendable agg k \<longrightarrow> appendable agg' k"
    by blast
  let ?wks = "wks[k := (wks ! k)\<lparr>w_pc := Finished\<rparr>]"
  have run: "run_schedule (serial_from k (length wks)) wks agg =
      run_schedule (serial_from (Suc k) (length ?wks)) ?wks agg'"
    using run_schedule_block [OF lt, of "serial_from (Suc k) (length wks)" agg] st
    by (simp add: serial_from_step [OF lt])
  have n: "n = length ?wks - Suc k" using Suc.hyps(2) by simp
  have le: "Suc k \<le> length ?wks" using lt by simp
  have inv: "\<forall>i. Suc k \<le> i \<and> i < length ?wks \<longrightarrow>
      w_pc (?wks ! i) = At_test \<and> appendable agg' (w_server (?wks ! i))"
    using Suc.prems(2) keep by auto
  have "count_entries (snd (run_schedule (serial_from (Suc k) (length ?wks)) ?wks agg')) =
      count_entries agg' + (length ?wks - Suc k)"
    by (rule Suc.hyps(1) [OF n le inv])
  then show ?case using run cnt lt by simp
qed

text \<open>
  Claim C9, amended. No lock guards the aggregate. When the workers do not interleave (each
  makes its test, its creation of the list and its append before the next worker starts) and
  no worker's key holds the time stamp, every append is kept: the aggregate gains one entry per
  worker.
\<close>

theorem serial_appends_kept:
  assumes "\<forall>wk \<in> set wks. w_pc wk = At_test \<and> appendable agg (w_server wk)"
  shows "count_entries (snd (run_schedule (serial (length wks)) wks agg)) =
           count_entries agg + length wks"
  using serial_from_count [of 0 wks agg] assms by (simp add: serial_def)

text \<open>C9 at two workers of the same server, one after the other.\<close>

theorem serial_appends_kept_witness:
  "snd (run_schedule (serial 2) [worker_a, worker_b] []) =
     [(''TG1'', Entries [entry_a, entry_b])] \<and>
   count_entries (snd (run_schedule (serial (length [worker_a, worker_b]))
     [worker_a, worker_b] [])) = 2"
proof -
  have h: "\<forall>wk \<in> set [worker_a, worker_b]. w_pc wk = At_test \<and> appendable [] (w_server wk)"
    by (simp add: worker_a_def worker_b_def appendable_def)
  have "serial 2 = [0, 0, 0, 1, 1, 1]"
    by (simp add: serial_def serial_from_def upt_rec numeral_2_eq_2)
  then have "snd (run_schedule (serial 2) [worker_a, worker_b] []) =
     [(''TG1'', Entries [entry_a, entry_b])]"
    by (simp add: worker_step_def worker_a_def worker_b_def agg_contains_def agg_create_def
        agg_append_def)
  then show ?thesis
    using serial_appends_kept [OF h] by (simp add: count_entries_def)
qed

text \<open>C9 as it was stated fails. There is a schedule that loses an append: both workers test
  for the key, the first creates the list and appends, then the second creates the list again,
  which throws away the entry of the first worker, and appends.\<close>

theorem interleaved_append_lost:
  "run_schedule [0, 1, 0, 0, 1, 1] [worker_a, worker_b] [] =
     ([worker_a\<lparr>w_pc := Finished\<rparr>, worker_b\<lparr>w_pc := Finished\<rparr>],
      [(''TG1'', Entries [entry_b])])"
  by (simp add: worker_step_def worker_a_def worker_b_def agg_contains_def agg_create_def
      agg_append_def)

subsection \<open>C10: a failure before the first flush\<close>



end
